theory Spec2Isabelle
  imports Main "HOL-Library.Char_ord" "HOL-Library.List_Lexorder" "HOL-Library.AList"
    "HOL-Library.Sublist" "HOL-Library.Multiset"
begin

section \<open>Python string primitives used by app.py\<close>

text \<open>
  Strings are modelled as lists of ASCII characters. The general theorems below do not
  depend on how \<open>strip\<close>, \<open>lower\<close> and \<open>title\<close> act on a character; only the
  concrete examples do, and those are ASCII.

  \<open>str.isspace\<close> on ASCII: tab, newline, vertical tab, form feed, carriage return,
  the four separators 0x1C..0x1F, and the space.
\<close>

definition isspace :: "char \<Rightarrow> bool" where
  "isspace c = (c \<in> set [CHR 0x09, CHR 0x0A, CHR 0x0B, CHR 0x0C, CHR 0x0D,
                           CHR 0x1C, CHR 0x1D, CHR 0x1E, CHR 0x1F, CHR 0x20])"

definition ascii_uppercase :: string where
  "ascii_uppercase = ''ABCDEFGHIJKLMNOPQRSTUVWXYZ''"

definition ascii_lowercase :: string where
  "ascii_lowercase = ''abcdefghijklmnopqrstuvwxyz''"

definition isupper :: "char \<Rightarrow> bool" where
  "isupper c = (c \<in> set ascii_uppercase)"

definition islower :: "char \<Rightarrow> bool" where
  "islower c = (c \<in> set ascii_lowercase)"

definition tolower :: "char \<Rightarrow> char" where
  "tolower c = (case map_of (zip ascii_uppercase ascii_lowercase) c of
                  Some d \<Rightarrow> d | None \<Rightarrow> c)"

definition toupper :: "char \<Rightarrow> char" where
  "toupper c = (case map_of (zip ascii_lowercase ascii_uppercase) c of
                  Some d \<Rightarrow> d | None \<Rightarrow> c)"

text \<open>\<open>s.strip()\<close>: whitespace removed at both ends.\<close>

definition strip :: "string \<Rightarrow> string" where
  "strip s = rev (dropWhile isspace (rev (dropWhile isspace s)))"

text \<open>\<open>s.lower()\<close>.\<close>

definition lower :: "string \<Rightarrow> string" where
  "lower s = map tolower s"

text \<open>
  \<open>s.title()\<close>: CPython walks the string with a flag \<open>previous_is_cased\<close>; a lowercase
  letter after an uncased character is uppercased, an uppercase letter after a cased
  character is lowercased, every other character clears the flag.
\<close>

fun title_from :: "bool \<Rightarrow> string \<Rightarrow> string" where
  "title_from previous_is_cased [] = []"
| "title_from previous_is_cased (c # cs) =
     (if islower c then (if previous_is_cased then c else toupper c) # title_from True cs
      else if isupper c then (if previous_is_cased then tolower c else c) # title_from True cs
      else c # title_from False cs)"

definition title :: "string \<Rightarrow> string" where
  "title s = title_from False s"

text \<open>
  \<open>s.split(sep)\<close> for a one-character separator: every occurrence of the separator ends
  a piece, so the empty string gives one empty piece and \<open>n\<close> separators give
  \<open>n + 1\<close> pieces.
\<close>

fun split_from :: "char \<Rightarrow> string \<Rightarrow> string \<Rightarrow> string list" where
  "split_from sep acc [] = [rev acc]"
| "split_from sep acc (c # cs) =
     (if c = sep then rev acc # split_from sep [] cs else split_from sep (c # acc) cs)"

definition split :: "char \<Rightarrow> string \<Rightarrow> string list" where
  "split sep s = split_from sep [] s"

section \<open>Errors\<close>

text \<open>
  The three kinds of inline error message of the application (\<open>st.error\<close>); the Python
  exceptions that end a handler (KeyError of a dictionary lookup, AttributeError of
  \<open>None.values()\<close>, ValueError raised by bcrypt), none of which app.py catches; and
  \<open>NotOnPage\<close> for an action whose widget the current page does not show.
\<close>

datatype error =
  ValidationError | AuthError | InputError | KeyError | AttributeError | ValueError | NotOnPage

section \<open>Classifier adapter (patient_portal, "Analyze Symptoms")\<close>

text \<open>
  \<open>all_symptoms\<close> (the vectorizer's feature names) and \<open>model\<close> (the pickled classifier)
  are loaded from files that are not part of the sources; they are parameters. The model is
  a function from the feature vector to the label \<open>str(prediction[0])\<close>.
\<close>

definition user_symptoms_of :: "string \<Rightarrow> string list" where
  "user_symptoms_of user_input = map (\<lambda>s. lower (strip s)) (split CHR '','' user_input)"

definition symptoms_vector :: "string list \<Rightarrow> string \<Rightarrow> nat list" where
  "symptoms_vector all_symptoms user_input =
     (let user_symptoms = user_symptoms_of user_input
      in map (\<lambda>symptom. if symptom \<in> set user_symptoms then 1 else 0) all_symptoms)"

definition predict :: "(nat list \<Rightarrow> string) \<Rightarrow> string list \<Rightarrow> string \<Rightarrow> string" where
  "predict model all_symptoms user_input = model (symptoms_vector all_symptoms user_input)"

text \<open>The button handler: blank input is rejected before the adapter is reached.\<close>

definition analyze_symptoms ::
  "(nat list \<Rightarrow> string) \<Rightarrow> string list \<Rightarrow> string \<Rightarrow> error + string" where
  "analyze_symptoms model all_symptoms user_input =
     (if strip user_input = [] then Inl InputError
      else Inr (predict model all_symptoms user_input))"

section \<open>Session state (st.session_state)\<close>

datatype role_name = Patient | Doctor

text \<open>A Python value that may be \<open>None\<close>; \<open>option\<close> is kept for a dictionary key that may be absent.\<close>

datatype 'a py = PyNone | Py 'a

record uploaded =
  file_name :: string
  file_bytes :: string

text \<open>
  A medical record, the dictionary \<open>new_record\<close> of doctor_portal. Every record the
  application creates has the first six keys; the key \<open>file\<close> (here \<open>record_file\<close>) is
  present only with an upload.
\<close>

record med_record =
  record_id :: string
  doctor :: string
  allergies :: string
  treatment :: string
  medications :: string
  timestamp :: string
  record_file :: "uploaded option"

text \<open>
  A folder mapping is a \<open>dict\<close>, which keeps insertion order: an association list with
  distinct keys, read with \<open>map_of\<close>, written with \<open>AList.update\<close> (a present key keeps
  its place, a new key goes to the end).
\<close>

type_synonym folders = "(string \<times> med_record list) list"

text \<open>
  A user entry, the dictionary built by signup. Its four keys are always present;
  \<open>medical_history\<close> and \<open>patients\<close> may hold \<open>None\<close>. The key \<open>doctors\<close> is absent until
  doctor_portal creates it.
\<close>

record user =
  password :: string
  user_role :: role_name
  medical_history :: "folders py"
  patients :: "string list py"
  doctors :: "string list option"

text \<open>
  \<open>st.session_state\<close>. The session's \<open>role\<close> is the empty string until a login, modelled
  as \<open>None\<close>; \<open>selected_folder\<close> is a key that patient_portal creates.
\<close>

record session_state =
  users :: "string \<rightharpoonup> user"
  logged_in :: bool
  username :: string
  role :: "role_name option"
  selected_folder :: "string option"

definition initial_state :: session_state where
  "initial_state = \<lparr>users = Map.empty, logged_in = False, username = [], role = None,
                     selected_folder = None\<rparr>"

datatype outcome = Ok | Failed error

section \<open>Auth functions\<close>

text \<open>
  bcrypt is an external library, so its two functions are parameters: \<open>hashpw\<close> takes the
  password and the salt to the stored text, \<open>checkpw\<close> takes the provided password and
  the stored text to a verdict. Both can raise ValueError (bcrypt 5 does for a password of
  more than 72 bytes), which is the result \<open>None\<close>; app.py has no \<open>try\<close> around either
  call, so the exception ends the handler where it is raised. The salt of
  \<open>bcrypt.gensalt()\<close> is an input of signup.
\<close>

definition signup ::
  "(string \<Rightarrow> string \<Rightarrow> string option) \<Rightarrow> session_state \<Rightarrow> string \<Rightarrow> string \<Rightarrow> string
     \<Rightarrow> role_name \<Rightarrow> string \<Rightarrow> outcome \<times> session_state" where
  "signup hashpw st uname pw confirm_password r salt =
     (if uname = [] \<or> pw = [] then (Failed ValidationError, st)
      else if pw \<noteq> confirm_password then (Failed ValidationError, st)
      else if length pw < 8 then (Failed ValidationError, st)
      else if uname \<in> dom (users st) then (Failed ValidationError, st)
      else
        (case hashpw pw salt of
           None \<Rightarrow> (Failed ValueError, st)
         | Some hashed_password \<Rightarrow>
             (Ok, st\<lparr>users := (users st)(uname \<mapsto>
                \<lparr>password = hashed_password,
                 user_role = r,
                 medical_history = (if r = Patient then Py [] else PyNone),
                 patients = (if r = Doctor then Py [] else PyNone),
                 doctors = None\<rparr>)\<rparr>)))"

definition login ::
  "(string \<Rightarrow> string \<Rightarrow> bool option) \<Rightarrow> session_state \<Rightarrow> string \<Rightarrow> string
     \<Rightarrow> outcome \<times> session_state" where
  "login checkpw st uname pw =
     (case users st uname of
        None \<Rightarrow> (Failed AuthError, st)
      | Some u \<Rightarrow>
          (case checkpw pw (password u) of
             None \<Rightarrow> (Failed ValueError, st)
           | Some True \<Rightarrow>
               (Ok, st\<lparr>logged_in := True, username := uname, role := Some (user_role u)\<rparr>)
           | Some False \<Rightarrow> (Failed AuthError, st)))"

definition logout_button :: "session_state \<Rightarrow> session_state" where
  "logout_button st = st\<lparr>logged_in := False, username := [], role := None\<rparr>"

section \<open>Record store\<close>

text \<open>
  \<open>sorted(records, key=lambda x: x.get("timestamp", ""), reverse=True)\<close>: Python's sort
  is stable and \<open>reverse=True\<close> keeps the order of equal keys, which is the stable
  ascending sort of the reversed list, reversed.
\<close>

definition sorted_newest_first :: "med_record list \<Rightarrow> med_record list" where
  "sorted_newest_first records = rev (sort_key timestamp (rev records))"

definition all_records_of :: "folders \<Rightarrow> med_record list" where
  "all_records_of mh = concat (map snd mh)"

definition allergy_tokens :: "string \<Rightarrow> string list" where
  "allergy_tokens s = map (\<lambda>a. title (strip a)) (split CHR '','' s)"

record medication_entry =
  entry_medications :: string
  entry_doctor :: string
  entry_date :: string

definition medication_entry_of :: "med_record \<Rightarrow> medication_entry" where
  "medication_entry_of r =
     \<lparr>entry_medications = medications r, entry_doctor = doctor r, entry_date = timestamp r\<rparr>"

text \<open>The body of the summary loop of patient_portal, on its two accumulators.\<close>

definition patient_summary_step ::
  "med_record \<Rightarrow> string set \<times> medication_entry list \<Rightarrow> string set \<times> medication_entry list" where
  "patient_summary_step r acc =
     (let combined_allergies =
            (if strip (allergies r) \<noteq> []
             then fst acc \<union> set (allergy_tokens (allergies r)) else fst acc);
          current_medications =
            (if strip (medications r) \<noteq> []
             then snd acc @ [medication_entry_of r] else snd acc)
      in (combined_allergies, current_medications))"

definition patient_summary :: "folders \<Rightarrow> string set \<times> medication_entry list" where
  "patient_summary mh =
     fold patient_summary_step (sorted_newest_first (all_records_of mh)) ({}, [])"

text \<open>The summary loop of doctor_portal: the allergies and the number of treatments.\<close>

definition doctor_summary_step :: "med_record \<Rightarrow> string set \<times> nat \<Rightarrow> string set \<times> nat" where
  "doctor_summary_step r acc =
     (let combined_allergies =
            (if strip (allergies r) \<noteq> []
             then fst acc \<union> set (allergy_tokens (allergies r)) else fst acc);
          treatments_count =
            (if strip (treatment r) \<noteq> [] then snd acc + 1 else snd acc)
      in (combined_allergies, treatments_count))"

definition doctor_summary :: "folders \<Rightarrow> string set \<times> nat" where
  "doctor_summary mh = fold doctor_summary_step (all_records_of mh) ({}, 0)"

text \<open>
  What the folder section of a page shows: the message that there are no records (the
  guard \<open>if not medical_history\<close>), nothing (no folder chosen), or the records of the
  chosen folder, newest first.
\<close>

datatype folder_view = NoRecords | NoFolderSelected | Records "med_record list"

text \<open>
  The folder section of patient_portal (lines 220-239), for the logged-in user and the
  \<open>selected_folder\<close> of the session. The summary above it calls \<open>.values()\<close> on the
  history, so a \<open>None\<close> history has raised AttributeError before; a \<open>selected_folder\<close>
  that is not a folder of this user raises KeyError.
\<close>

definition patient_folder_view :: "session_state \<Rightarrow> error + folder_view" where
  "patient_folder_view st =
     (case users st (username st) of
        None \<Rightarrow> Inl KeyError
      | Some user_data \<Rightarrow>
          (case medical_history user_data of
             PyNone \<Rightarrow> Inl AttributeError
           | Py mh \<Rightarrow>
               if mh = [] then Inr NoRecords
               else
                 (case selected_folder st of
                    None \<Rightarrow> Inr NoFolderSelected
                  | Some folder \<Rightarrow>
                      (case map_of mh folder of
                         None \<Rightarrow> Inl KeyError
                       | Some folder_records \<Rightarrow>
                           Inr (Records (sorted_newest_first folder_records))))))"

text \<open>The select box offers the users whose role is Patient.\<close>

definition in_patient_list :: "session_state \<Rightarrow> string \<Rightarrow> bool" where
  "in_patient_list st u =
     (case users st u of None \<Rightarrow> False | Some d \<Rightarrow> user_role d = Patient)"

text \<open>
  The folder section of doctor_portal (lines 301-337), for the patient and the folder of
  the two select boxes, the check box "Show all records" and the doctor filter. The
  boxes offer only the patients and the folder names that exist; \<open>if selected_folder:\<close>
  skips the folder whose name is the empty string; the filter box exists only when the
  check box is off and offers \<open>All\<close> and the doctors of the folder.
\<close>

definition doctor_folder_view ::
  "session_state \<Rightarrow> string \<Rightarrow> string \<Rightarrow> bool \<Rightarrow> string \<Rightarrow> error + folder_view" where
  "doctor_folder_view st patient folder show_all doctor_filter =
     (if \<not> in_patient_list st patient then Inl NotOnPage
      else
        (case users st patient of
           None \<Rightarrow> Inl KeyError
         | Some patient_data \<Rightarrow>
             (case medical_history patient_data of
                PyNone \<Rightarrow> Inl AttributeError
              | Py mh \<Rightarrow>
                  if mh = [] then Inr NoRecords
                  else if folder \<notin> fst ` set mh then Inl NotOnPage
                  else if folder = [] then Inr NoFolderSelected
                  else
                    (case map_of mh folder of
                       None \<Rightarrow> Inl KeyError
                     | Some folder_records \<Rightarrow>
                         if show_all then Inr (Records (sorted_newest_first folder_records))
                         else if doctor_filter \<notin> set (''All'' # map doctor folder_records)
                           then Inl NotOnPage
                         else if doctor_filter = ''All''
                           then Inr (Records (sorted_newest_first folder_records))
                         else Inr (Records (sorted_newest_first
                                 (filter (\<lambda>r. doctor r = doctor_filter) folder_records)))))))"

text \<open>The folder buttons of patient_portal: one per existing folder of the logged-in patient.\<close>

definition select_folder :: "session_state \<Rightarrow> string \<Rightarrow> session_state" where
  "select_folder st folder =
     (case users st (username st) of
        None \<Rightarrow> st
      | Some user_data \<Rightarrow>
          (case medical_history user_data of
             PyNone \<Rightarrow> st
           | Py mh \<Rightarrow>
               if folder \<in> fst ` set mh then st\<lparr>selected_folder := Some folder\<rparr> else st))"

text \<open>
  The form "Add New Medical Record" of doctor_portal. The identifier (\<open>uuid4()\<close>) and
  the time (\<open>datetime.now()\<close>) are inputs.
\<close>

record record_form =
  selected_patient :: string
  folder_name :: string
  form_allergies :: string
  form_medications :: string
  form_treatment :: string
  uploaded_file :: "uploaded option"
  new_id :: string
  now :: string

definition new_record_of :: "string \<Rightarrow> record_form \<Rightarrow> med_record" where
  "new_record_of doctor_name form =
     \<lparr>record_id = new_id form,
      doctor = doctor_name,
      allergies = form_allergies form,
      treatment = form_treatment form,
      medications = form_medications form,
      timestamp = now form,
      record_file = uploaded_file form\<rparr>"

definition add_to_folder :: "string \<Rightarrow> med_record \<Rightarrow> folders \<Rightarrow> folders" where
  "add_to_folder folder r mh =
     (let mh1 = (if folder \<notin> fst ` set mh then AList.update folder [] mh else mh)
      in AList.map_entry folder (\<lambda>rs. rs @ [r]) mh1)"

text \<open>\<open>patient_data.get("doctors", [])\<close>.\<close>

definition get_doctors :: "user \<Rightarrow> string list" where
  "get_doctors patient_data = (case doctors patient_data of None \<Rightarrow> [] | Some l \<Rightarrow> l)"

definition add_doctor :: "string \<Rightarrow> user \<Rightarrow> user" where
  "add_doctor doctor_name patient_data =
     (if doctor_name \<notin> set (get_doctors patient_data)
      then patient_data\<lparr>doctors := Some (get_doctors patient_data @ [doctor_name])\<rparr>
      else patient_data)"

text \<open>
  The submit of the form (lines 364-390). The page has run down to the form first: with no
  patient to select it has returned, and for a \<open>None\<close> history the summary loop has
  raised AttributeError.
\<close>

definition add_medical_record :: "session_state \<Rightarrow> record_form \<Rightarrow> outcome \<times> session_state" where
  "add_medical_record st form =
     (if \<not> in_patient_list st (selected_patient form) then (Failed NotOnPage, st)
      else
        (case users st (selected_patient form) of
           None \<Rightarrow> (Failed KeyError, st)
         | Some patient_data \<Rightarrow>
             (case medical_history patient_data of
                PyNone \<Rightarrow> (Failed AttributeError, st)
              | Py mh \<Rightarrow>
                  (Ok, st\<lparr>users := (users st)(selected_patient form \<mapsto>
                     add_doctor (username st)
                       (patient_data\<lparr>medical_history :=
                          Py (add_to_folder (folder_name form)
                                (new_record_of (username st) form) mh)\<rparr>))\<rparr>))))"

section \<open>Main app: which handler a page offers\<close>

datatype action =
    Signup string string string role_name string
  | Login string string
  | Logout
  | AddRecord record_form
  | SelectFolder string
  | AnalyzeSymptoms string
  | Rerun

text \<open>
  main_app shows login and signup while nobody is logged in, patient_portal to a session
  whose role is Patient and doctor_portal to any other logged-in session. An action whose
  widget is not on the page leaves the state as it is; the analysis and a plain rerun
  (the summaries and listings) only read.
\<close>

fun step ::
  "(string \<Rightarrow> string \<Rightarrow> string option) \<Rightarrow> (string \<Rightarrow> string \<Rightarrow> bool option) \<Rightarrow> session_state
     \<Rightarrow> action \<Rightarrow> session_state" where
  "step hashpw checkpw st (Signup u p c r salt) =
     (if \<not> logged_in st then snd (signup hashpw st u p c r salt) else st)"
| "step hashpw checkpw st (Login u p) =
     (if \<not> logged_in st then snd (login checkpw st u p) else st)"
| "step hashpw checkpw st Logout =
     (if logged_in st then logout_button st else st)"
| "step hashpw checkpw st (AddRecord form) =
     (if logged_in st \<and> role st \<noteq> Some Patient then snd (add_medical_record st form) else st)"
| "step hashpw checkpw st (SelectFolder folder) =
     (if logged_in st \<and> role st = Some Patient then select_folder st folder else st)"
| "step hashpw checkpw st (AnalyzeSymptoms user_input) = st"
| "step hashpw checkpw st Rerun = st"

definition run ::
  "(string \<Rightarrow> string \<Rightarrow> string option) \<Rightarrow> (string \<Rightarrow> string \<Rightarrow> bool option) \<Rightarrow> session_state
     \<Rightarrow> action list \<Rightarrow> session_state" where
  "run hashpw checkpw st actions = foldl (step hashpw checkpw) st actions"

section \<open>Reading the record store\<close>

text \<open>
  What the portals read of one patient: the folder mapping (empty for a missing user or a
  \<open>None\<close> history), the folder names in the order of the mapping, and the records of one
  folder in stored order (empty for a missing folder).
\<close>

definition folders_of :: "session_state \<Rightarrow> string \<Rightarrow> folders" where
  "folders_of st patient =
     (case users st patient of
        None \<Rightarrow> []
      | Some user_data \<Rightarrow> (case medical_history user_data of PyNone \<Rightarrow> [] | Py mh \<Rightarrow> mh))"

definition list_folders :: "session_state \<Rightarrow> string \<Rightarrow> string list" where
  "list_folders st patient = map fst (folders_of st patient)"

definition folder_records :: "session_state \<Rightarrow> string \<Rightarrow> string \<Rightarrow> med_record list" where
  "folder_records st patient folder =
     (case map_of (folders_of st patient) folder of None \<Rightarrow> [] | Some rs \<Rightarrow> rs)"

section \<open>Example states\<close>

text \<open>
  A stand-in for bcrypt in the examples: the stored text is the salt followed by the
  password, the check compares with the salt \<open>$2b$\<close>, and both raise ValueError for a
  password of more than 72 characters, as bcrypt 5 does.
\<close>

definition example_hashpw :: "string \<Rightarrow> string \<Rightarrow> string option" where
  "example_hashpw pw salt = (if 72 < length pw then None else Some (salt @ pw))"

definition example_checkpw :: "string \<Rightarrow> string \<Rightarrow> bool option" where
  "example_checkpw pw stored = (if 72 < length pw then None else Some (stored = ''$2b$'' @ pw))"

definition long_password :: string where
  "long_password = replicate 73 CHR ''a''"

definition alice_registered :: session_state where
  "alice_registered =
     snd (signup example_hashpw initial_state ''alice'' ''password1'' ''password1'' Patient ''$2b$'')"

text \<open>
  The summary as the specification words it, for comparison with \<open>patient_summary\<close>:
  the tokens of every record whose allergies field is not the empty string, and the
  records whose medications field is not the empty string, newest first.
\<close>

definition spec_allergy_set :: "folders \<Rightarrow> string set" where
  "spec_allergy_set mh =
     \<Union> (set (map (\<lambda>r. set (allergy_tokens (allergies r)))
                  (filter (\<lambda>r. allergies r \<noteq> []) (all_records_of mh))))"

definition spec_medications :: "folders \<Rightarrow> medication_entry list" where
  "spec_medications mh =
     map medication_entry_of
       (sorted_newest_first (filter (\<lambda>r. medications r \<noteq> []) (all_records_of mh)))"

text \<open>Records for the examples.\<close>

definition blank_record :: med_record where
  "blank_record = \<lparr>record_id = ''id-1'', doctor = ''bob'', allergies = '' '', treatment = ''Rest'',
                    medications = '' '', timestamp = ''2024-01-01 10:00:00'', record_file = None\<rparr>"

definition peanut_record :: med_record where
  "peanut_record = \<lparr>record_id = ''id-2'', doctor = ''bob'', allergies = ''peanuts, Dust'',
                     treatment = ''Rest'', medications = ''Cetirizine'',
                     timestamp = ''2024-01-01 10:00:00'', record_file = None\<rparr>"

definition pollen_record :: med_record where
  "pollen_record = \<lparr>record_id = ''id-3'', doctor = ''carol'', allergies = ''Peanuts, pollen'',
                     treatment = [], medications = ''Loratadine'',
                     timestamp = ''2024-03-05 09:30:00'', record_file = None\<rparr>"

text \<open>A user entry that doctor_portal offers and can write to: a patient with a folder mapping.\<close>

definition patient_entry :: "session_state \<Rightarrow> string \<Rightarrow> bool" where
  "patient_entry st p =
     (\<exists>u mh. users st p = Some u \<and> user_role u = Patient \<and> medical_history u = Py mh)"

text \<open>
  A clinic for the examples: the patient alice and the doctor bob have signed up and bob
  is logged in; three filled-in forms for records of alice, and the clinic after bob has
  submitted two of them.
\<close>

definition clinic :: session_state where
  "clinic = run example_hashpw example_checkpw initial_state
     [Signup ''alice'' ''password1'' ''password1'' Patient ''$2b$'',
      Signup ''bob'' ''password2'' ''password2'' Doctor ''$2b$'',
      Login ''bob'' ''password2'']"

definition checkup_form :: record_form where
  "checkup_form = \<lparr>selected_patient = ''alice'', folder_name = ''Checkups'',
                    form_allergies = ''peanuts, Dust'', form_medications = ''Cetirizine'',
                    form_treatment = ''Rest'', uploaded_file = None, new_id = ''id-1'',
                    now = ''2024-01-01 10:00:00''\<rparr>"

definition followup_form :: record_form where
  "followup_form = \<lparr>selected_patient = ''alice'', folder_name = ''Checkups'',
                     form_allergies = [], form_medications = [],
                     form_treatment = ''Walk'', uploaded_file = None, new_id = ''id-2'',
                     now = ''2024-03-05 09:30:00''\<rparr>"

definition xray_form :: record_form where
  "xray_form = \<lparr>selected_patient = ''alice'', folder_name = ''Imaging'',
                 form_allergies = [], form_medications = [],
                 form_treatment = ''X-ray'',
                 uploaded_file = Some \<lparr>file_name = ''arm.png'', file_bytes = ''PNG''\<rparr>,
                 new_id = ''id-3'', now = ''2024-02-10 08:00:00''\<rparr>"

definition two_visits :: session_state where
  "two_visits = run example_hashpw example_checkpw clinic
     [AddRecord checkup_form, AddRecord followup_form]"

text \<open>
  The shape of a user entry as signup builds it and doctor_portal keeps it: a patient has a
  folder mapping and \<open>None\<close> for \<open>patients\<close>, a doctor has \<open>None\<close> for the history and
  the empty \<open>patients\<close> list, and no doctor is twice in \<open>doctors\<close>.
\<close>

definition user_shape :: "user \<Rightarrow> bool" where
  "user_shape u =
     ((case user_role u of
         Patient \<Rightarrow> patients u = PyNone \<and> medical_history u \<noteq> PyNone
       | Doctor \<Rightarrow> patients u = Py [] \<and> medical_history u = PyNone)
      \<and> distinct (get_doctors u))"

definition store_shape :: "session_state \<Rightarrow> bool" where
  "store_shape st = (\<forall>name u. users st name = Some u \<longrightarrow> user_shape u)"

section \<open>Properties of the classifier adapter\<close>

lemmas str_defs = split_def strip_def lower_def title_def isspace_def isupper_def islower_def
  tolower_def toupper_def ascii_uppercase_def ascii_lowercase_def

lemma symptoms_vector_length: "length (symptoms_vector V s) = length V"
  by (simp add: symptoms_vector_def)

lemma symptoms_vector_nth:
  "i < length V \<Longrightarrow>
   symptoms_vector V s ! i = (if V ! i \<in> set (user_symptoms_of s) then 1 else 0)"
  by (simp add: symptoms_vector_def)

lemma user_symptoms_fever_headache:
  "user_symptoms_of ''fever, headache'' = [''fever'', ''headache'']"
  by (simp add: user_symptoms_of_def str_defs)

lemma symptoms_vector_zero:
  "set V \<inter> set (user_symptoms_of s) = {} \<Longrightarrow> symptoms_vector V s = replicate (length V) 0"
  by (auto simp: symptoms_vector_def map_replicate_const[symmetric] intro!: map_cong)

lemma sum_indicator: "sum_list (map (\<lambda>x. if P x then 1 else 0) xs) = length (filter P xs)"
  by (induction xs) auto

lemma two_ones:
  assumes "distinct V" "a \<in> set V" "b \<in> set V" "a \<noteq> b"
  shows "length (filter (\<lambda>x. x = a \<or> x = b) V) = 2"
proof -
  have "distinct (filter (\<lambda>x. x = a \<or> x = b) V)" using assms(1) by simp
  then have "length (filter (\<lambda>x. x = a \<or> x = b) V) = card (set (filter (\<lambda>x. x = a \<or> x = b) V))"
    by (rule distinct_card[symmetric])
  also have "set (filter (\<lambda>x. x = a \<or> x = b) V) = {a, b}" using assms(2,3) by auto
  also have "card {a, b} = 2" using assms(4) by simp
  finally show ?thesis .
qed

text \<open>
  Claim C1. The feature vector has one entry per vocabulary word; entry \<open>i\<close> is 1 exactly
  when the \<open>i\<close>-th word equals one of the trimmed, lowercased pieces of the input between
  commas, and the label is the model's answer on that vector. For \<open>fever, headache\<close> the
  entries at the words \<open>fever\<close> and \<open>headache\<close> are 1 and all others 0 (two ones when
  the vocabulary has both words and no word twice). An input with no vocabulary word gives
  the zero vector, and the handler returns the model's label for it.
\<close>

theorem predict_feature_vector:
  "length (symptoms_vector V s) = length V
   \<and> (\<forall>i<length V. symptoms_vector V s ! i =
         (if V ! i \<in> set (map (\<lambda>t. lower (strip t)) (split CHR '','' s)) then 1 else 0))
   \<and> predict model V s = model (symptoms_vector V s)
   \<and> (\<forall>i<length V. symptoms_vector V ''fever, headache'' ! i =
         (if V ! i = ''fever'' \<or> V ! i = ''headache'' then 1 else 0))
   \<and> (distinct V \<and> ''fever'' \<in> set V \<and> ''headache'' \<in> set V \<longrightarrow>
         sum_list (symptoms_vector V ''fever, headache'') = 2)
   \<and> (set V \<inter> set (map (\<lambda>t. lower (strip t)) (split CHR '','' s)) = {} \<longrightarrow>
         symptoms_vector V s = replicate (length V) 0
         \<and> predict model V s = model (replicate (length V) 0)
         \<and> (strip s \<noteq> [] \<longrightarrow> analyze_symptoms model V s = Inr (model (replicate (length V) 0))))"
proof -
  have a: "length (symptoms_vector V s) = length V" by (rule symptoms_vector_length)
  have b: "\<forall>i<length V. symptoms_vector V s ! i =
         (if V ! i \<in> set (map (\<lambda>t. lower (strip t)) (split CHR '','' s)) then 1 else 0)"
    using symptoms_vector_nth[of _ V s] by (simp add: user_symptoms_of_def)
  have c: "predict model V s = model (symptoms_vector V s)" by (simp add: predict_def)
  have d: "\<forall>i<length V. symptoms_vector V ''fever, headache'' ! i =
         (if V ! i = ''fever'' \<or> V ! i = ''headache'' then 1 else 0)"
    by (simp add: symptoms_vector_nth user_symptoms_fever_headache)
  have e: "distinct V \<and> ''fever'' \<in> set V \<and> ''headache'' \<in> set V \<longrightarrow>
         sum_list (symptoms_vector V ''fever, headache'') = 2"
  proof
    assume h: "distinct V \<and> ''fever'' \<in> set V \<and> ''headache'' \<in> set V"
    have "symptoms_vector V ''fever, headache''
          = map (\<lambda>x. if x = ''fever'' \<or> x = ''headache'' then 1 else 0) V"
      by (simp add: symptoms_vector_def user_symptoms_fever_headache)
    then have "sum_list (symptoms_vector V ''fever, headache'')
               = length (filter (\<lambda>x. x = ''fever'' \<or> x = ''headache'') V)"
      by (simp only: sum_indicator)
    also have "\<dots> = 2" using h by (intro two_ones) simp_all
    finally show "sum_list (symptoms_vector V ''fever, headache'') = 2" .
  qed
  have f: "set V \<inter> set (map (\<lambda>t. lower (strip t)) (split CHR '','' s)) = {} \<longrightarrow>
         symptoms_vector V s = replicate (length V) 0
         \<and> predict model V s = model (replicate (length V) 0)
         \<and> (strip s \<noteq> [] \<longrightarrow> analyze_symptoms model V s = Inr (model (replicate (length V) 0)))"
    using symptoms_vector_zero[of V s]
    by (simp add: user_symptoms_of_def predict_def analyze_symptoms_def)
  from a b c d e f show ?thesis by blast
qed

theorem predict_feature_vector_witness:
  "symptoms_vector [''cough'', ''fever'', ''headache'', ''rash''] ''fever, headache'' ! 1 = 1
   \<and> sum_list (symptoms_vector [''cough'', ''fever'', ''headache'', ''rash''] ''fever, headache'') = 2
   \<and> analyze_symptoms (\<lambda>v. if sum_list v = 0 then ''healthy'' else ''flu'')
        [''cough'', ''fever'', ''headache'', ''rash''] ''Nausea , dizzy'' = Inr ''healthy''"
proof -
  let ?V = "[''cough'', ''fever'', ''headache'', ''rash'']"
  let ?m = "\<lambda>v::nat list. if sum_list v = 0 then ''healthy'' else ''flu''"
  note t = predict_feature_vector[of ?V "''fever, headache''" ?m]
  note u = predict_feature_vector[of ?V "''Nausea , dizzy''" ?m]
  have h1: "(1::nat) < length ?V" by simp
  have h2: "distinct ?V \<and> ''fever'' \<in> set ?V \<and> ''headache'' \<in> set ?V" by simp
  have h3: "set ?V \<inter> set (map (\<lambda>t. lower (strip t)) (split CHR '','' ''Nausea , dizzy'')) = {}"
    by (simp add: str_defs)
  have h4: "strip ''Nausea , dizzy'' \<noteq> []" by (simp add: str_defs)
  have "symptoms_vector ?V ''fever, headache'' ! 1 = 1"
    using t[THEN conjunct2, THEN conjunct2, THEN conjunct2, THEN conjunct1, rule_format, OF h1]
    by simp
  moreover have "sum_list (symptoms_vector ?V ''fever, headache'') = 2"
    using t[THEN conjunct2, THEN conjunct2, THEN conjunct2, THEN conjunct2, THEN conjunct1,
            rule_format, OF h2] .
  moreover have "analyze_symptoms ?m ?V ''Nausea , dizzy'' = Inr ''healthy''"
    using u[THEN conjunct2, THEN conjunct2, THEN conjunct2, THEN conjunct2, THEN conjunct2,
            rule_format, OF h3, THEN conjunct2, THEN conjunct2, rule_format, OF h4]
    by simp
  ultimately show ?thesis by blast
qed

section \<open>Properties of signup and login\<close>

lemma long_password_length: "length long_password = 73"
  by (simp add: long_password_def)


lemma alice_registered_users:
  "users alice_registered ''alice''
     = Some \<lparr>password = ''$2b$password1'', user_role = Patient, medical_history = Py [],
              patients = PyNone, doctors = None\<rparr>"
  "users alice_registered ''bob'' = None"
  by (simp_all add: alice_registered_def signup_def initial_state_def example_hashpw_def)




text \<open>
  alice is registered and logs in with a password of 73 characters: bcrypt raises, which is
  neither the authentication error nor a login.
\<close>

theorem login_long_password_counterexample:
  "users alice_registered ''alice'' \<noteq> None
   \<and> login example_checkpw alice_registered ''alice'' long_password
       = (Failed ValueError, alice_registered)"
  by (simp add: alice_registered_users login_def example_checkpw_def long_password_length)

text \<open>
  Claim C4, with the result of bcrypt taken into account. login fails with an
  authentication error exactly when the username is not a key of the user store or
  \<open>checkpw\<close> answers False for the password and the stored text; it succeeds exactly when
  the user exists and \<open>checkpw\<close> answers True, and then the session is logged in under
  that username with the stored role; when \<open>checkpw\<close> raises, the handler ends with that
  exception and the state as it was.
\<close>

theorem login_result:
  "((fst (login checkpw st uname pw) = Failed AuthError)
     = (users st uname = None
        \<or> (\<exists>u. users st uname = Some u \<and> checkpw pw (password u) = Some False)))
   \<and> ((fst (login checkpw st uname pw) = Ok)
     = (\<exists>u. users st uname = Some u \<and> checkpw pw (password u) = Some True))
   \<and> (\<forall>u. users st uname = Some u \<and> checkpw pw (password u) = Some True \<longrightarrow>
         login checkpw st uname pw
           = (Ok, st\<lparr>logged_in := True, username := uname, role := Some (user_role u)\<rparr>))
   \<and> (\<forall>u. users st uname = Some u \<and> checkpw pw (password u) = None \<longrightarrow>
         login checkpw st uname pw = (Failed ValueError, st))"
  by (auto simp: login_def split: option.splits bool.splits)

theorem login_result_witness:
  "login example_checkpw alice_registered ''alice'' ''password1''
     = (Ok, alice_registered\<lparr>logged_in := True, username := ''alice'', role := Some Patient\<rparr>)
   \<and> fst (login example_checkpw alice_registered ''alice'' ''password2'') = Failed AuthError
   \<and> fst (login example_checkpw alice_registered ''bob'' ''password1'') = Failed AuthError
   \<and> login example_checkpw alice_registered ''alice'' long_password
     = (Failed ValueError, alice_registered)"
proof -
  let ?u = "\<lparr>password = ''$2b$password1'', user_role = Patient, medical_history = Py [],
             patients = PyNone, doctors = None\<rparr>"
  note u = alice_registered_users(1)
  note nb = alice_registered_users(2)
  have ok: "users alice_registered ''alice'' = Some ?u
            \<and> example_checkpw ''password1'' (password ?u) = Some True"
    using u by (simp add: example_checkpw_def)
  have wrong: "users alice_registered ''alice'' = None
      \<or> (\<exists>u. users alice_registered ''alice'' = Some u
               \<and> example_checkpw ''password2'' (password u) = Some False)"
    using u by (simp add: example_checkpw_def)
  have absent: "users alice_registered ''bob'' = None
      \<or> (\<exists>u. users alice_registered ''bob'' = Some u
               \<and> example_checkpw ''password1'' (password u) = Some False)"
    using nb by simp
  have raises: "users alice_registered ''alice'' = Some ?u
            \<and> example_checkpw long_password (password ?u) = None"
    using u by (simp add: example_checkpw_def long_password_length)
  have "login example_checkpw alice_registered ''alice'' ''password1''
     = (Ok, alice_registered\<lparr>logged_in := True, username := ''alice'', role := Some Patient\<rparr>)"
    using login_result[of example_checkpw alice_registered "''alice''" "''password1''",
        THEN conjunct2, THEN conjunct2, THEN conjunct1, rule_format, OF ok] by simp
  moreover have "fst (login example_checkpw alice_registered ''alice'' ''password2'') = Failed AuthError"
    using login_result[of example_checkpw alice_registered "''alice''" "''password2''",
        THEN conjunct1, THEN iffD2, OF wrong] .
  moreover have "fst (login example_checkpw alice_registered ''bob'' ''password1'') = Failed AuthError"
    using login_result[of example_checkpw alice_registered "''bob''" "''password1''",
        THEN conjunct1, THEN iffD2, OF absent] .
  moreover have "login example_checkpw alice_registered ''alice'' long_password
     = (Failed ValueError, alice_registered)"
    using login_result[of example_checkpw alice_registered "''alice''" long_password,
        THEN conjunct2, THEN conjunct2, THEN conjunct2, rule_format, OF raises] .
  ultimately show ?thesis by blast
qed

text \<open>
  Claim C8. A failed login changes nothing: the flag, the username and the role of the
  session and the user store are what they were, whether the username is unknown, the
  password is wrong or bcrypt raises.
\<close>

theorem login_failure_keeps_state:
  "((users st uname = None \<or> (\<exists>u. users st uname = Some u \<and> checkpw pw (password u) = Some False))
      \<longrightarrow> login checkpw st uname pw = (Failed AuthError, st)
          \<and> step hashpw checkpw st (Login uname pw) = st)
   \<and> ((users st uname = None \<or> (\<exists>u. users st uname = Some u \<and> checkpw pw (password u) \<noteq> Some True))
      \<longrightarrow> fst (login checkpw st uname pw) \<noteq> Ok
          \<and> snd (login checkpw st uname pw) = st
          \<and> step hashpw checkpw st (Login uname pw) = st)
   \<and> (fst (login checkpw st uname pw) \<noteq> Ok \<longrightarrow>
          snd (login checkpw st uname pw) = st
          \<and> logged_in (snd (login checkpw st uname pw)) = logged_in st
          \<and> username (snd (login checkpw st uname pw)) = username st
          \<and> role (snd (login checkpw st uname pw)) = role st
          \<and> users (snd (login checkpw st uname pw)) = users st)"
  by (auto simp: login_def split: option.splits bool.splits)

theorem login_failure_keeps_state_witness:
  "login example_checkpw alice_registered ''alice'' ''password2''
     = (Failed AuthError, alice_registered)
   \<and> snd (login example_checkpw alice_registered ''bob'' ''password1'') = alice_registered
   \<and> snd (login example_checkpw alice_registered ''alice'' long_password) = alice_registered"
proof -
  note u = alice_registered_users(1)
  note nb = alice_registered_users(2)
  have wrong: "users alice_registered ''alice'' = None
      \<or> (\<exists>u. users alice_registered ''alice'' = Some u
               \<and> example_checkpw ''password2'' (password u) = Some False)"
    using u by (simp add: example_checkpw_def)
  have failed: "fst (login example_checkpw alice_registered ''bob'' ''password1'') \<noteq> Ok"
    using nb by (simp add: login_def)
  have raises: "users alice_registered ''alice'' = None
      \<or> (\<exists>u. users alice_registered ''alice'' = Some u
               \<and> example_checkpw long_password (password u) \<noteq> Some True)"
    using u by (simp add: example_checkpw_def long_password_length)
  note a = login_failure_keeps_state[of alice_registered "''alice''" example_checkpw
      "''password2''" example_hashpw, THEN conjunct1, rule_format, OF wrong, THEN conjunct1]
  note b = login_failure_keeps_state[of alice_registered "''bob''" example_checkpw
      "''password1''" example_hashpw, THEN conjunct2, THEN conjunct2, rule_format, OF failed,
      THEN conjunct1]
  note c = login_failure_keeps_state[of alice_registered "''alice''" example_checkpw
      long_password example_hashpw, THEN conjunct2, THEN conjunct1, rule_format, OF raises,
      THEN conjunct2, THEN conjunct1]
  from a b c show ?thesis by blast
qed

section \<open>Properties of the summaries\<close>

lemma fold_patient_summary_step:
  "fold patient_summary_step rs (A, M) =
     (A \<union> (\<Union>r \<in> {r \<in> set rs. strip (allergies r) \<noteq> []}. set (allergy_tokens (allergies r))),
      M @ map medication_entry_of (filter (\<lambda>r. strip (medications r) \<noteq> []) rs))"
  by (induction rs arbitrary: A M) (auto simp: patient_summary_step_def)

lemma fold_doctor_summary_step:
  "fold doctor_summary_step rs (A, n) =
     (A \<union> (\<Union>r \<in> {r \<in> set rs. strip (allergies r) \<noteq> []}. set (allergy_tokens (allergies r))),
      n + length (filter (\<lambda>r. strip (treatment r) \<noteq> []) rs))"
  by (induction rs arbitrary: A n) (auto simp: doctor_summary_step_def)

lemma set_sorted_newest_first: "set (sorted_newest_first rs) = set rs"
  by (simp add: sorted_newest_first_def)

lemma mset_sorted_newest_first: "mset (sorted_newest_first rs) = mset rs"
  by (simp add: sorted_newest_first_def)

lemma length_sorted_newest_first: "length (sorted_newest_first rs) = length rs"
  by (simp add: sorted_newest_first_def)

lemma sorted_newest_first_order:
  "sorted_wrt (\<lambda>a b. timestamp a \<ge> timestamp b) (sorted_newest_first rs)"
proof -
  have "sorted (map timestamp (sort_key timestamp (rev rs)))" by (rule sorted_sort_key)
  then have "sorted_wrt (\<lambda>a b. timestamp a \<le> timestamp b) (sort_key timestamp (rev rs))"
    by (simp add: sorted_wrt_map)
  then show ?thesis by (simp add: sorted_newest_first_def sorted_wrt_rev)
qed

lemma filter_sorted_newest_first:
  "filter P (sorted_newest_first rs) = sorted_newest_first (filter P rs)"
  by (simp add: sorted_newest_first_def rev_filter[symmetric] filter_sort)

lemma allergy_tokens_example1: "allergy_tokens ''peanuts, Dust'' = [''Peanuts'', ''Dust'']"
  by (simp add: allergy_tokens_def str_defs)

lemma allergy_tokens_example2: "allergy_tokens ''Peanuts, pollen'' = [''Peanuts'', ''Pollen'']"
  by (simp add: allergy_tokens_def str_defs)

lemma strip_example1: "strip ''peanuts, Dust'' \<noteq> []"
  by (simp add: str_defs)

lemma strip_example2: "strip ''Peanuts, pollen'' \<noteq> []"
  by (simp add: str_defs)

text \<open>
  A record whose allergies and medications fields hold one space: both fields are not
  empty, yet neither summary takes anything from the record, while the summary worded
  with "non-empty" would hold the empty token and the record.
\<close>

theorem summary_blank_fields_counterexample:
  "fst (patient_summary [(''Checkups'', [blank_record])]) = {}
   \<and> spec_allergy_set [(''Checkups'', [blank_record])] = {[]}
   \<and> fst (doctor_summary [(''Checkups'', [blank_record])]) = {}
   \<and> snd (patient_summary [(''Checkups'', [blank_record])]) = []
   \<and> spec_medications [(''Checkups'', [blank_record])] = [medication_entry_of blank_record]"
  by (simp add: patient_summary_def doctor_summary_def spec_allergy_set_def spec_medications_def
      all_records_of_def sorted_newest_first_def patient_summary_step_def doctor_summary_step_def
      blank_record_def allergy_tokens_def str_defs)

text \<open>
  Claim C5, with "non-empty" read as the code tests it (not blank, that is not empty after
  trimming). The allergy set of both portals is the union, over the records of all folders
  whose allergies field is not blank, of the trimmed, title-cased pieces between commas;
  the fields \<open>peanuts, Dust\<close> and \<open>Peanuts, pollen\<close> give Peanuts, Dust and Pollen. The
  medications list of patient_portal consists of the records whose medications field is
  not blank, in non-increasing order of the timestamp strings.
\<close>

theorem summary_derivation:
  "fst (patient_summary mh)
     = (\<Union>r \<in> {r \<in> set (all_records_of mh). strip (allergies r) \<noteq> []}.
          set (map (\<lambda>a. title (strip a)) (split CHR '','' (allergies r))))
   \<and> fst (doctor_summary mh) = fst (patient_summary mh)
   \<and> (set (all_records_of mh) = {r1, r2} \<and> allergies r1 = ''peanuts, Dust''
        \<and> allergies r2 = ''Peanuts, pollen''
        \<longrightarrow> fst (patient_summary mh) = {''Peanuts'', ''Dust'', ''Pollen''})
   \<and> snd (patient_summary mh)
       = map medication_entry_of
           (sorted_newest_first (filter (\<lambda>r. strip (medications r) \<noteq> []) (all_records_of mh)))
   \<and> mset (snd (patient_summary mh))
       = mset (map medication_entry_of
                 (filter (\<lambda>r. strip (medications r) \<noteq> []) (all_records_of mh)))
   \<and> sorted_wrt (\<lambda>a b. entry_date a \<ge> entry_date b) (snd (patient_summary mh))"
proof -
  let ?all = "all_records_of mh"
  let ?U = "\<Union>r \<in> {r \<in> set ?all. strip (allergies r) \<noteq> []}. set (allergy_tokens (allergies r))"
  have p: "patient_summary mh
     = (?U, map medication_entry_of
              (filter (\<lambda>r. strip (medications r) \<noteq> []) (sorted_newest_first ?all)))"
    by (simp add: patient_summary_def fold_patient_summary_step set_sorted_newest_first)
  have a: "fst (patient_summary mh)
     = (\<Union>r \<in> {r \<in> set ?all. strip (allergies r) \<noteq> []}.
          set (map (\<lambda>a. title (strip a)) (split CHR '','' (allergies r))))"
    by (simp add: p allergy_tokens_def)
  have b: "fst (doctor_summary mh) = fst (patient_summary mh)"
    by (simp add: p doctor_summary_def fold_doctor_summary_step)
  have c: "set ?all = {r1, r2} \<and> allergies r1 = ''peanuts, Dust''
        \<and> allergies r2 = ''Peanuts, pollen''
        \<longrightarrow> fst (patient_summary mh) = {''Peanuts'', ''Dust'', ''Pollen''}"
  proof
    assume h: "set ?all = {r1, r2} \<and> allergies r1 = ''peanuts, Dust''
        \<and> allergies r2 = ''Peanuts, pollen''"
    then have "{r \<in> set ?all. strip (allergies r) \<noteq> []} = {r1, r2}"
      using strip_example1 strip_example2 by auto
    then have "?U = set (allergy_tokens ''peanuts, Dust'') \<union> set (allergy_tokens ''Peanuts, pollen'')"
      using h by simp
    also have "\<dots> = {''Peanuts'', ''Dust'', ''Pollen''}"
      by (simp only: allergy_tokens_example1 allergy_tokens_example2) auto
    finally show "fst (patient_summary mh) = {''Peanuts'', ''Dust'', ''Pollen''}"
      by (simp add: p)
  qed
  have d: "snd (patient_summary mh)
       = map medication_entry_of
           (sorted_newest_first (filter (\<lambda>r. strip (medications r) \<noteq> []) ?all))"
    by (simp add: p filter_sorted_newest_first)
  have e: "mset (snd (patient_summary mh))
       = mset (map medication_entry_of (filter (\<lambda>r. strip (medications r) \<noteq> []) ?all))"
    by (simp only: d mset_map mset_sorted_newest_first)
  have "sorted_wrt (\<lambda>a b. timestamp a \<ge> timestamp b)
          (sorted_newest_first (filter (\<lambda>r. strip (medications r) \<noteq> []) ?all))"
    by (rule sorted_newest_first_order)
  then have f: "sorted_wrt (\<lambda>a b. entry_date a \<ge> entry_date b) (snd (patient_summary mh))"
    by (simp add: d sorted_wrt_map medication_entry_of_def)
  from a b c d e f show ?thesis by blast
qed

theorem summary_derivation_witness:
  "fst (patient_summary [(''Checkups'', [peanut_record]), (''Allergy'', [pollen_record])])
     = {''Peanuts'', ''Dust'', ''Pollen''}
   \<and> snd (patient_summary [(''Checkups'', [peanut_record]), (''Allergy'', [pollen_record])])
     = [medication_entry_of pollen_record, medication_entry_of peanut_record]"
proof -
  let ?mh = "[(''Checkups'', [peanut_record]), (''Allergy'', [pollen_record])]"
  note t = summary_derivation[of ?mh peanut_record pollen_record]
  have h: "set (all_records_of ?mh) = {peanut_record, pollen_record}
           \<and> allergies peanut_record = ''peanuts, Dust''
           \<and> allergies pollen_record = ''Peanuts, pollen''"
    by (simp add: all_records_of_def peanut_record_def pollen_record_def)
  have a: "fst (patient_summary ?mh) = {''Peanuts'', ''Dust'', ''Pollen''}"
    using t[THEN conjunct2, THEN conjunct2, THEN conjunct1, rule_format, OF h] .
  have "sorted_newest_first (filter (\<lambda>r. strip (medications r) \<noteq> []) (all_records_of ?mh))
          = [pollen_record, peanut_record]"
    by (simp add: all_records_of_def sorted_newest_first_def peanut_record_def pollen_record_def
        str_defs)
  then have b: "snd (patient_summary ?mh)
                  = [medication_entry_of pollen_record, medication_entry_of peanut_record]"
    using t[THEN conjunct2, THEN conjunct2, THEN conjunct2, THEN conjunct1] by simp
  from a b show ?thesis by (rule conjI)
qed

section \<open>Properties of the record store\<close>

lemma map_fst_map_entry: "map fst (AList.map_entry k f xs) = map fst xs"
  by (induction xs) auto

lemma map_of_add_to_folder:
  "map_of (add_to_folder f r mh) g =
     (if g = f then Some ((case map_of mh f of None \<Rightarrow> [] | Some rs \<Rightarrow> rs) @ [r])
      else map_of mh g)"
proof (cases "map_of mh f")
  case None
  then have "f \<notin> fst ` set mh" by (simp add: map_of_eq_None_iff)
  then show ?thesis using None
    by (simp add: add_to_folder_def AList.map_of_map_entry AList.update_conv')
next
  case (Some rs)
  then have "f \<in> fst ` set mh" by (metis map_of_eq_None_iff option.distinct(1))
  then show ?thesis using Some
    by (simp add: add_to_folder_def AList.map_of_map_entry)
qed

lemma keys_add_to_folder:
  "map fst (add_to_folder f r mh) = (if f \<in> set (map fst mh) then map fst mh else map fst mh @ [f])"
  by (simp add: add_to_folder_def map_fst_map_entry AList.update_keys)

lemma add_doctor_fields:
  "medical_history (add_doctor d u) = medical_history u"
  "user_role (add_doctor d u) = user_role u"
  "patients (add_doctor d u) = patients u"
  "password (add_doctor d u) = password u"
  by (simp_all add: add_doctor_def)

lemma add_medical_record_ok:
  assumes "patient_entry st (selected_patient fm)"
  shows "\<exists>u mh. users st (selected_patient fm) = Some u \<and> medical_history u = Py mh
           \<and> add_medical_record st fm =
               (Ok, st\<lparr>users := (users st)(selected_patient fm \<mapsto>
                      add_doctor (username st)
                        (u\<lparr>medical_history :=
                             Py (add_to_folder (folder_name fm) (new_record_of (username st) fm) mh)\<rparr>))\<rparr>)"
  using assms by (auto simp: patient_entry_def add_medical_record_def in_patient_list_def)

lemma add_medical_record_session:
  "logged_in (snd (add_medical_record st fm)) = logged_in st"
  "username (snd (add_medical_record st fm)) = username st"
  "role (snd (add_medical_record st fm)) = role st"
  "selected_folder (snd (add_medical_record st fm)) = selected_folder st"
  by (simp_all add: add_medical_record_def split: option.splits py.splits)

lemma add_medical_record_other:
  "q \<noteq> selected_patient fm \<Longrightarrow> users (snd (add_medical_record st fm)) q = users st q"
  by (simp add: add_medical_record_def split: option.splits py.splits)

lemma add_medical_record_patient_entry:
  "patient_entry st p \<Longrightarrow> patient_entry (snd (add_medical_record st fm)) p"
proof (cases "p = selected_patient fm")
  case True
  assume "patient_entry st p"
  with True obtain u mh where "users st (selected_patient fm) = Some u"
      "user_role u = Patient" "medical_history u = Py mh"
    by (auto simp: patient_entry_def)
  then show ?thesis using True
    by (simp add: patient_entry_def add_medical_record_def in_patient_list_def add_doctor_fields)
next
  case False
  assume "patient_entry st p"
  then show ?thesis using False by (simp add: patient_entry_def add_medical_record_other)
qed

lemma folders_of_add:
  assumes "patient_entry st (selected_patient fm)"
  shows "folders_of (snd (add_medical_record st fm)) p =
           (if p = selected_patient fm
            then add_to_folder (folder_name fm) (new_record_of (username st) fm) (folders_of st p)
            else folders_of st p)"
proof -
  from add_medical_record_ok[OF assms] obtain u mh where
    u: "users st (selected_patient fm) = Some u" "medical_history u = Py mh"
    and r: "add_medical_record st fm =
               (Ok, st\<lparr>users := (users st)(selected_patient fm \<mapsto>
                      add_doctor (username st)
                        (u\<lparr>medical_history :=
                             Py (add_to_folder (folder_name fm) (new_record_of (username st) fm) mh)\<rparr>))\<rparr>)"
    by blast
  show ?thesis using u by (simp add: r folders_of_def add_doctor_fields)
qed

lemma folder_records_add:
  assumes "patient_entry st (selected_patient fm)"
  shows "folder_records (snd (add_medical_record st fm)) p f =
           folder_records st p f @
             (if p = selected_patient fm \<and> f = folder_name fm
              then [new_record_of (username st) fm] else [])"
  by (simp add: folder_records_def folders_of_add[OF assms] map_of_add_to_folder)

lemma list_folders_add:
  assumes "patient_entry st (selected_patient fm)"
  shows "list_folders (snd (add_medical_record st fm)) p =
           (if p = selected_patient fm \<and> folder_name fm \<notin> set (list_folders st p)
            then list_folders st p @ [folder_name fm] else list_folders st p)"
  by (simp add: list_folders_def folders_of_add[OF assms] keys_add_to_folder)

lemma add_medical_record_not_patient:
  "\<not> in_patient_list st (selected_patient fm) \<Longrightarrow> snd (add_medical_record st fm) = st"
  by (simp add: add_medical_record_def)

lemma add_medical_record_no_entry:
  "\<not> patient_entry st (selected_patient fm) \<Longrightarrow> snd (add_medical_record st fm) = st"
  by (auto simp: patient_entry_def add_medical_record_def in_patient_list_def
           split: option.splits py.splits)

lemma step_add_record:
  "logged_in st \<Longrightarrow> role st \<noteq> Some Patient \<Longrightarrow>
   step hashpw checkpw st (AddRecord fm) = snd (add_medical_record st fm)"
  by simp

lemma run_Cons: "run hashpw checkpw st (a # as) = run hashpw checkpw (step hashpw checkpw st a) as"
  by (simp add: run_def)

lemma run_Nil: "run hashpw checkpw st [] = st"
  by (simp add: run_def)

lemma run_append:
  "run hashpw checkpw st (as @ bs) = run hashpw checkpw (run hashpw checkpw st as) bs"
  by (simp add: run_def)

lemma run_add_records:
  assumes "logged_in st" "role st \<noteq> Some Patient" "patient_entry st p"
  shows "folder_records (run hashpw checkpw st (map AddRecord forms)) p f =
           folder_records st p f @
             map (new_record_of (username st))
               (filter (\<lambda>fm. selected_patient fm = p \<and> folder_name fm = f) forms)
         \<and> set (list_folders (run hashpw checkpw st (map AddRecord forms)) p) =
             set (list_folders st p) \<union> folder_name ` {fm \<in> set forms. selected_patient fm = p}
         \<and> patient_entry (run hashpw checkpw st (map AddRecord forms)) p
         \<and> username (run hashpw checkpw st (map AddRecord forms)) = username st"
  using assms
proof (induction forms arbitrary: st)
  case Nil
  then show ?case by (simp add: run_Nil)
next
  case (Cons a forms)
  let ?st1 = "snd (add_medical_record st a)"
  have s1: "step hashpw checkpw st (AddRecord a) = ?st1"
    using Cons.prems by simp
  have l: "logged_in ?st1" "role ?st1 \<noteq> Some Patient" "username ?st1 = username st"
    using Cons.prems by (simp_all add: add_medical_record_session)
  have pe: "patient_entry ?st1 p"
    using Cons.prems(3) by (rule add_medical_record_patient_entry)
  note ih = Cons.IH[OF l(1) l(2) pe]
  have fr: "folder_records ?st1 p f =
           folder_records st p f @
             (if p = selected_patient a \<and> f = folder_name a
              then [new_record_of (username st) a] else [])"
  proof (cases "patient_entry st (selected_patient a)")
    case True
    then show ?thesis by (rule folder_records_add)
  next
    case False
    then have "p \<noteq> selected_patient a" using Cons.prems(3) by auto
    then show ?thesis using False by (simp add: add_medical_record_no_entry)
  qed
  have lf: "set (list_folders ?st1 p) =
           set (list_folders st p) \<union> (if p = selected_patient a then {folder_name a} else {})"
  proof (cases "patient_entry st (selected_patient a)")
    case True
    then show ?thesis by (auto simp: list_folders_add)
  next
    case False
    then have "p \<noteq> selected_patient a" using Cons.prems(3) by auto
    then show ?thesis using False by (simp add: add_medical_record_no_entry)
  qed
  have r: "run hashpw checkpw st (map AddRecord (a # forms))
             = run hashpw checkpw ?st1 (map AddRecord forms)"
    by (simp only: list.map run_Cons s1)
  have c1: "folder_records (run hashpw checkpw ?st1 (map AddRecord forms)) p f =
           folder_records st p f @
             map (new_record_of (username st))
               (filter (\<lambda>fm. selected_patient fm = p \<and> folder_name fm = f) (a # forms))"
    using ih[THEN conjunct1] fr l(3) by auto
  have c2: "set (list_folders (run hashpw checkpw ?st1 (map AddRecord forms)) p) =
             set (list_folders st p) \<union> folder_name ` {fm \<in> set (a # forms). selected_patient fm = p}"
    using ih[THEN conjunct2, THEN conjunct1] lf by auto
  have c3: "patient_entry (run hashpw checkpw ?st1 (map AddRecord forms)) p"
    using ih by blast
  have c4: "username (run hashpw checkpw ?st1 (map AddRecord forms)) = username st"
    using ih l(3) by simp
  show ?case unfolding r using c1 c2 c3 c4 by blast
qed

lemma folders_of_patient_entry:
  "patient_entry st p \<Longrightarrow>
   \<exists>u. users st p = Some u \<and> user_role u = Patient \<and> medical_history u = Py (folders_of st p)"
  by (auto simp: patient_entry_def folders_of_def)

lemma map_of_folder_records:
  "map_of (folders_of st p) f =
     (if f \<in> set (list_folders st p) then Some (folder_records st p f) else None)"
proof (cases "map_of (folders_of st p) f")
  case None
  then have "f \<notin> fst ` set (folders_of st p)" by (simp add: map_of_eq_None_iff)
  then show ?thesis using None by (simp add: list_folders_def)
next
  case (Some rs)
  then have "f \<in> fst ` set (folders_of st p)" by (metis map_of_eq_None_iff option.distinct(1))
  then show ?thesis using Some by (simp add: list_folders_def folder_records_def)
qed

lemma doctor_folder_view_all:
  assumes "patient_entry st p"
  shows "doctor_folder_view st p f True doctor_filter =
           (if list_folders st p = [] then Inr NoRecords
            else if f \<notin> set (list_folders st p) then Inl NotOnPage
            else if f = [] then Inr NoFolderSelected
            else Inr (Records (sorted_newest_first (folder_records st p f))))"
proof -
  from folders_of_patient_entry[OF assms] obtain u where
    u: "users st p = Some u" "user_role u = Patient" "medical_history u = Py (folders_of st p)"
    by blast
  note m = map_of_folder_records[of st p f]
  show ?thesis
    using u m by (simp add: doctor_folder_view_def in_patient_list_def list_folders_def)
qed

lemma patient_folder_view_selected:
  assumes "users st2 p = users st p" "username st2 = p" "selected_folder st2 = Some f"
    and "patient_entry st p"
  shows "patient_folder_view st2 =
           (if list_folders st p = [] then Inr NoRecords
            else if f \<notin> set (list_folders st p) then Inl KeyError
            else Inr (Records (sorted_newest_first (folder_records st p f))))"
proof -
  from folders_of_patient_entry[OF assms(4)] obtain u where
    u: "users st p = Some u" "user_role u = Patient" "medical_history u = Py (folders_of st p)"
    by blast
  note m = map_of_folder_records[of st p f]
  show ?thesis
    using u m assms(1,2,3) by (simp add: patient_folder_view_def list_folders_def)
qed

lemma clinic_users:
  "users clinic ''alice'' = Some \<lparr>password = ''$2b$password1'', user_role = Patient,
                                  medical_history = Py [], patients = PyNone, doctors = None\<rparr>"
  "users clinic ''bob'' = Some \<lparr>password = ''$2b$password2'', user_role = Doctor,
                                medical_history = PyNone, patients = Py [], doctors = None\<rparr>"
  "logged_in clinic" "role clinic = Some Doctor" "username clinic = ''bob''"
  by (simp_all add: clinic_def run_def signup_def login_def initial_state_def example_hashpw_def
      example_checkpw_def)

text \<open>
  Claim C2. For a logged-in doctor and a patient with a folder mapping, adding a record
  succeeds, appends the record at the end of the chosen folder's list, creates the folder
  at the end of the folder names when it was absent, and leaves the other folders alone.
  Starting from a patient without folders, after any sequence of such calls a folder holds
  the records of the calls made for it, in call order, and it exists exactly when a call
  was made for it. For such a folder the listing of patient_portal (the patient logged in,
  the folder selected) shows those records in non-increasing order of the timestamp
  strings, as many as calls were made for that patient and folder, and so does the listing
  of doctor_portal, except that it shows nothing for the folder whose name is the empty
  string. While no call has been made for the patient, both pages show the message that
  there are no records.
\<close>

theorem add_record_list_records:
  "(logged_in st \<and> role st \<noteq> Some Patient \<and> users st p = Some u \<and> user_role u = Patient
      \<and> medical_history u = Py mh
    \<longrightarrow> (\<forall>fm. selected_patient fm = p \<longrightarrow>
           fst (add_medical_record st fm) = Ok
           \<and> folder_records (step hashpw checkpw st (AddRecord fm)) p (folder_name fm)
               = folder_records st p (folder_name fm) @ [new_record_of (username st) fm]
           \<and> list_folders (step hashpw checkpw st (AddRecord fm)) p
               = (if folder_name fm \<in> set (list_folders st p) then list_folders st p
                  else list_folders st p @ [folder_name fm])
           \<and> (\<forall>g. g \<noteq> folder_name fm \<longrightarrow>
                 folder_records (step hashpw checkpw st (AddRecord fm)) p g
                   = folder_records st p g)))
   \<and> (logged_in st \<and> role st \<noteq> Some Patient \<and> users st p = Some u \<and> user_role u = Patient
      \<and> medical_history u = Py []
    \<longrightarrow> (let st' = run hashpw checkpw st (map AddRecord forms);
             added = map (new_record_of (username st))
                       (filter (\<lambda>fm. selected_patient fm = p \<and> folder_name fm = f) forms)
         in folder_records st' p f = added
            \<and> (f \<in> set (list_folders st' p)) = (added \<noteq> [])
            \<and> (added \<noteq> [] \<longrightarrow>
                 (\<forall>st2. users st2 p = users st' p \<and> username st2 = p
                         \<and> selected_folder st2 = Some f
                    \<longrightarrow> patient_folder_view st2 = Inr (Records (sorted_newest_first added)))
                 \<and> (f \<noteq> [] \<longrightarrow>
                      doctor_folder_view st' p f True doctor_filter
                        = Inr (Records (sorted_newest_first added)))
                 \<and> (f = [] \<longrightarrow>
                      doctor_folder_view st' p f True doctor_filter = Inr NoFolderSelected))
            \<and> (filter (\<lambda>fm. selected_patient fm = p) forms = [] \<longrightarrow>
                 doctor_folder_view st' p f True doctor_filter = Inr NoRecords
                 \<and> (\<forall>st2. users st2 p = users st' p \<and> username st2 = p
                      \<longrightarrow> patient_folder_view st2 = Inr NoRecords))
            \<and> sorted_wrt (\<lambda>a b. timestamp a \<ge> timestamp b) (sorted_newest_first added)
            \<and> mset (sorted_newest_first added) = mset added
            \<and> length (sorted_newest_first added)
                 = length (filter (\<lambda>fm. selected_patient fm = p \<and> folder_name fm = f) forms)))"
proof -
  have one: "\<forall>fm. selected_patient fm = p \<longrightarrow>
           fst (add_medical_record st fm) = Ok
           \<and> folder_records (step hashpw checkpw st (AddRecord fm)) p (folder_name fm)
               = folder_records st p (folder_name fm) @ [new_record_of (username st) fm]
           \<and> list_folders (step hashpw checkpw st (AddRecord fm)) p
               = (if folder_name fm \<in> set (list_folders st p) then list_folders st p
                  else list_folders st p @ [folder_name fm])
           \<and> (\<forall>g. g \<noteq> folder_name fm \<longrightarrow>
                 folder_records (step hashpw checkpw st (AddRecord fm)) p g
                   = folder_records st p g)"
    if h: "logged_in st \<and> role st \<noteq> Some Patient \<and> users st p = Some u \<and> user_role u = Patient
      \<and> medical_history u = Py mh"
  proof (intro allI impI)
    fix fm :: record_form assume sp: "selected_patient fm = p"
    have pe: "patient_entry st (selected_patient fm)"
      using h sp by (auto simp: patient_entry_def)
    have s: "step hashpw checkpw st (AddRecord fm) = snd (add_medical_record st fm)"
      using h by simp
    have ok: "fst (add_medical_record st fm) = Ok"
      using add_medical_record_ok[OF pe] by auto
    show "fst (add_medical_record st fm) = Ok
           \<and> folder_records (step hashpw checkpw st (AddRecord fm)) p (folder_name fm)
               = folder_records st p (folder_name fm) @ [new_record_of (username st) fm]
           \<and> list_folders (step hashpw checkpw st (AddRecord fm)) p
               = (if folder_name fm \<in> set (list_folders st p) then list_folders st p
                  else list_folders st p @ [folder_name fm])
           \<and> (\<forall>g. g \<noteq> folder_name fm \<longrightarrow>
                 folder_records (step hashpw checkpw st (AddRecord fm)) p g
                   = folder_records st p g)"
      unfolding s using ok sp by (simp add: folder_records_add[OF pe] list_folders_add[OF pe])
  qed
  have many: "(let st' = run hashpw checkpw st (map AddRecord forms);
             added = map (new_record_of (username st))
                       (filter (\<lambda>fm. selected_patient fm = p \<and> folder_name fm = f) forms)
         in folder_records st' p f = added
            \<and> (f \<in> set (list_folders st' p)) = (added \<noteq> [])
            \<and> (added \<noteq> [] \<longrightarrow>
                 (\<forall>st2. users st2 p = users st' p \<and> username st2 = p
                         \<and> selected_folder st2 = Some f
                    \<longrightarrow> patient_folder_view st2 = Inr (Records (sorted_newest_first added)))
                 \<and> (f \<noteq> [] \<longrightarrow>
                      doctor_folder_view st' p f True doctor_filter
                        = Inr (Records (sorted_newest_first added)))
                 \<and> (f = [] \<longrightarrow>
                      doctor_folder_view st' p f True doctor_filter = Inr NoFolderSelected))
            \<and> (filter (\<lambda>fm. selected_patient fm = p) forms = [] \<longrightarrow>
                 doctor_folder_view st' p f True doctor_filter = Inr NoRecords
                 \<and> (\<forall>st2. users st2 p = users st' p \<and> username st2 = p
                      \<longrightarrow> patient_folder_view st2 = Inr NoRecords))
            \<and> sorted_wrt (\<lambda>a b. timestamp a \<ge> timestamp b) (sorted_newest_first added)
            \<and> mset (sorted_newest_first added) = mset added
            \<and> length (sorted_newest_first added)
                 = length (filter (\<lambda>fm. selected_patient fm = p \<and> folder_name fm = f) forms))"
    if h: "logged_in st \<and> role st \<noteq> Some Patient \<and> users st p = Some u \<and> user_role u = Patient
      \<and> medical_history u = Py []"
  proof -
    let ?st' = "run hashpw checkpw st (map AddRecord forms)"
    let ?mine = "filter (\<lambda>fm. selected_patient fm = p \<and> folder_name fm = f) forms"
    let ?added = "map (new_record_of (username st)) ?mine"
    have pe: "patient_entry st p" using h by (auto simp: patient_entry_def)
    have e: "folder_records st p f = []" "list_folders st p = []"
      using h by (simp_all add: folder_records_def list_folders_def folders_of_def)
    note r = run_add_records[of st p hashpw checkpw forms f, OF _ _ pe]
    have a: "folder_records ?st' p f = ?added"
      using r h e by simp
    have lf: "set (list_folders ?st' p) = folder_name ` {fm \<in> set forms. selected_patient fm = p}"
      using r h e by simp
    then have b: "(f \<in> set (list_folders ?st' p)) = (?added \<noteq> [])"
      by (auto simp: filter_empty_conv)
    have pe': "patient_entry ?st' p" using r h by simp
    have ne: "list_folders ?st' p \<noteq> []" if "?added \<noteq> []"
      using that b by auto
    have c1: "\<forall>st2. users st2 p = users ?st' p \<and> username st2 = p \<and> selected_folder st2 = Some f
                \<longrightarrow> patient_folder_view st2 = Inr (Records (sorted_newest_first ?added))"
      if n: "?added \<noteq> []"
    proof (intro allI impI)
      fix st2 :: session_state
      assume s2: "users st2 p = users ?st' p \<and> username st2 = p \<and> selected_folder st2 = Some f"
      have "f \<in> set (list_folders ?st' p)" using b n by simp
      then show "patient_folder_view st2 = Inr (Records (sorted_newest_first ?added))"
        using patient_folder_view_selected[of st2 p ?st' f, OF _ _ _ pe'] s2 ne[OF n] a by simp
    qed
    have c2: "doctor_folder_view ?st' p f True doctor_filter
                = Inr (Records (sorted_newest_first ?added))"
      if n: "?added \<noteq> []" and f: "f \<noteq> []"
    proof -
      have "f \<in> set (list_folders ?st' p)" using b n by simp
      then show ?thesis
        using doctor_folder_view_all[OF pe', of f doctor_filter] ne[OF n] a f by simp
    qed
    have c3: "doctor_folder_view ?st' p f True doctor_filter = Inr NoFolderSelected"
      if n: "?added \<noteq> []" and f: "f = []"
    proof -
      have "f \<in> set (list_folders ?st' p)" using b n by simp
      then show ?thesis
        using doctor_folder_view_all[OF pe', of f doctor_filter] ne[OF n] f by simp
    qed
    have none: "list_folders ?st' p = []" if "filter (\<lambda>fm. selected_patient fm = p) forms = []"
    proof -
      have "{fm \<in> set forms. selected_patient fm = p} = {}"
        using that by (auto simp: filter_empty_conv)
      then have "set (list_folders ?st' p) = {}" using lf by simp
      then show ?thesis by simp
    qed
    have c4: "doctor_folder_view ?st' p f True doctor_filter = Inr NoRecords"
      if "filter (\<lambda>fm. selected_patient fm = p) forms = []"
      using doctor_folder_view_all[OF pe', of f doctor_filter] none[OF that] by simp
    have c5: "\<forall>st2. users st2 p = users ?st' p \<and> username st2 = p
                \<longrightarrow> patient_folder_view st2 = Inr NoRecords"
      if n: "filter (\<lambda>fm. selected_patient fm = p) forms = []"
    proof (intro allI impI)
      fix st2 :: session_state
      assume s2: "users st2 p = users ?st' p \<and> username st2 = p"
      from folders_of_patient_entry[OF pe'] obtain u' where
        u': "users ?st' p = Some u'" "medical_history u' = Py (folders_of ?st' p)" by blast
      have "folders_of ?st' p = []" using none[OF n] by (simp add: list_folders_def)
      then show "patient_folder_view st2 = Inr NoRecords"
        using s2 u' by (simp add: patient_folder_view_def)
    qed
    have d: "sorted_wrt (\<lambda>a b. timestamp a \<ge> timestamp b) (sorted_newest_first ?added)"
      by (rule sorted_newest_first_order)
    have m: "mset (sorted_newest_first ?added) = mset ?added"
      by (rule mset_sorted_newest_first)
    have l: "length (sorted_newest_first ?added) = length ?mine"
      by (simp add: length_sorted_newest_first)
    show ?thesis unfolding Let_def using a b c1 c2 c3 c4 c5 d m l by blast
  qed
  from one many show ?thesis by blast
qed

theorem add_record_list_records_witness:
  "doctor_folder_view
     (run example_hashpw example_checkpw clinic
        (map AddRecord [checkup_form, xray_form, followup_form])) ''alice'' ''Checkups'' True []
     = Inr (Records [new_record_of ''bob'' followup_form, new_record_of ''bob'' checkup_form])
   \<and> folder_records (step example_hashpw example_checkpw clinic (AddRecord xray_form))
        ''alice'' ''Imaging''
     = [new_record_of ''bob'' xray_form]
   \<and> list_folders (step example_hashpw example_checkpw clinic (AddRecord xray_form)) ''alice''
     = [''Imaging'']"
proof -
  let ?u = "\<lparr>password = ''$2b$password1'', user_role = Patient,
             medical_history = Py [], patients = PyNone, doctors = None\<rparr>"
  let ?forms = "[checkup_form, xray_form, followup_form]"
  have h: "logged_in clinic \<and> role clinic \<noteq> Some Patient \<and> users clinic ''alice'' = Some ?u
             \<and> user_role ?u = Patient \<and> medical_history ?u = Py []"
    by (simp add: clinic_users)
  note t = add_record_list_records[of clinic "''alice''" ?u "[]" example_hashpw example_checkpw
      ?forms "''Checkups''" "[]"]
  have added: "map (new_record_of (username clinic))
                 (filter (\<lambda>fm. selected_patient fm = ''alice'' \<and> folder_name fm = ''Checkups'') ?forms)
               = [new_record_of ''bob'' checkup_form, new_record_of ''bob'' followup_form]"
    by (simp add: clinic_users checkup_form_def xray_form_def followup_form_def)
  have srt: "sorted_newest_first [new_record_of ''bob'' checkup_form, new_record_of ''bob'' followup_form]
               = [new_record_of ''bob'' followup_form, new_record_of ''bob'' checkup_form]"
    by (simp add: sorted_newest_first_def new_record_of_def checkup_form_def followup_form_def)
  note many = t[THEN conjunct2, rule_format, OF h, unfolded Let_def added srt,
      THEN conjunct2, THEN conjunct2, THEN conjunct1]
  have a: "doctor_folder_view (run example_hashpw example_checkpw clinic (map AddRecord ?forms))
             ''alice'' ''Checkups'' True []
           = Inr (Records [new_record_of ''bob'' followup_form, new_record_of ''bob'' checkup_form])"
    using many by simp
  have sp: "selected_patient xray_form = ''alice''" by (simp add: xray_form_def)
  note one = t[THEN conjunct1, rule_format, OF h, rule_format, OF sp]
  have e: "folder_records clinic ''alice'' ''Imaging'' = []" "list_folders clinic ''alice'' = []"
    by (simp_all add: folder_records_def list_folders_def folders_of_def clinic_users)
  have fn: "folder_name xray_form = ''Imaging''" by (simp add: xray_form_def)
  have b: "folder_records (step example_hashpw example_checkpw clinic (AddRecord xray_form))
             ''alice'' ''Imaging'' = [new_record_of ''bob'' xray_form]"
    using one[THEN conjunct2, THEN conjunct1] by (simp add: fn e clinic_users)
  have c: "list_folders (step example_hashpw example_checkpw clinic (AddRecord xray_form)) ''alice''
             = [''Imaging'']"
    using one[THEN conjunct2, THEN conjunct2, THEN conjunct1] by (simp add: fn e)
  from a b c show ?thesis by blast
qed

section \<open>Invariants of the user store\<close>

lemma store_shape_initial: "store_shape initial_state"
  by (simp add: store_shape_def initial_state_def)

lemma user_shape_add_doctor: "user_shape u \<Longrightarrow> user_shape (add_doctor d u)"
  by (auto simp: user_shape_def add_doctor_def get_doctors_def split: role_name.splits)

lemma store_shape_signup:
  "store_shape st \<Longrightarrow> store_shape (snd (signup hashpw st uname pw confirm r salt))"
  by (cases r) (auto simp: store_shape_def signup_def user_shape_def get_doctors_def
                     split: option.splits)

lemma users_login: "users (snd (login checkpw st uname pw)) = users st"
  by (simp add: login_def split: option.splits bool.splits)

lemma users_logout: "users (logout_button st) = users st"
  by (simp add: logout_button_def)

lemma users_select_folder: "users (select_folder st folder) = users st"
  by (simp add: select_folder_def split: option.splits py.splits)

lemma store_shape_users: "users st' = users st \<Longrightarrow> store_shape st \<Longrightarrow> store_shape st'"
  by (simp add: store_shape_def)

lemma store_shape_add:
  assumes "store_shape st"
  shows "store_shape (snd (add_medical_record st fm))"
proof (cases "patient_entry st (selected_patient fm)")
  case False
  then show ?thesis using assms by (simp add: add_medical_record_no_entry)
next
  case True
  from add_medical_record_ok[OF True] obtain u mh where
    u: "users st (selected_patient fm) = Some u" "medical_history u = Py mh"
    and r: "add_medical_record st fm =
               (Ok, st\<lparr>users := (users st)(selected_patient fm \<mapsto>
                      add_doctor (username st)
                        (u\<lparr>medical_history :=
                             Py (add_to_folder (folder_name fm) (new_record_of (username st) fm) mh)\<rparr>))\<rparr>)"
    by blast
  have "user_shape u" using assms u(1) by (auto simp: store_shape_def)
  then have "user_shape (u\<lparr>medical_history :=
               Py (add_to_folder (folder_name fm) (new_record_of (username st) fm) mh)\<rparr>)"
    using u(2) by (auto simp: user_shape_def get_doctors_def split: role_name.splits)
  then have "user_shape (add_doctor (username st) (u\<lparr>medical_history :=
               Py (add_to_folder (folder_name fm) (new_record_of (username st) fm) mh)\<rparr>))"
    by (rule user_shape_add_doctor)
  then show ?thesis using assms by (auto simp: r store_shape_def)
qed

lemma store_shape_step: "store_shape st \<Longrightarrow> store_shape (step hashpw checkpw st a)"
proof (cases a)
  case (Signup u p c r salt)
  assume "store_shape st"
  then show ?thesis using Signup by (simp add: store_shape_signup)
next
  case (Login u p)
  assume "store_shape st"
  then show ?thesis using Login by (auto intro: store_shape_users[OF users_login])
next
  case Logout
  assume "store_shape st"
  then show ?thesis using Logout by (auto intro: store_shape_users[OF users_logout])
next
  case (AddRecord fm)
  assume "store_shape st"
  then show ?thesis using AddRecord by (simp add: store_shape_add)
next
  case (SelectFolder f)
  assume "store_shape st"
  then show ?thesis using SelectFolder by (auto intro: store_shape_users[OF users_select_folder])
next
  case (AnalyzeSymptoms s)
  assume "store_shape st"
  then show ?thesis using AnalyzeSymptoms by simp
next
  case Rerun
  assume "store_shape st"
  then show ?thesis using Rerun by simp
qed

lemma store_shape_run: "store_shape st \<Longrightarrow> store_shape (run hashpw checkpw st actions)"
proof (induction actions arbitrary: st)
  case Nil
  then show ?case by (simp add: run_Nil)
next
  case (Cons a actions)
  then show ?case by (simp add: run_Cons store_shape_step)
qed

lemma reachable_shape:
  "users (run hashpw checkpw initial_state actions) name = Some u \<Longrightarrow> user_shape u"
  using store_shape_run[OF store_shape_initial, of hashpw checkpw actions]
  by (auto simp: store_shape_def)

text \<open>No handler removes a user, changes a role or a password, or writes a \<open>patients\<close> list.\<close>

lemma signup_keeps_users:
  "users st name = Some u \<Longrightarrow> users (snd (signup hashpw st uname pw confirm r salt)) name = Some u"
  by (auto simp: signup_def split: option.splits)

lemma add_keeps_fields:
  assumes "users st name = Some u"
  shows "\<exists>u'. users (snd (add_medical_record st fm)) name = Some u'
              \<and> patients u' = patients u \<and> user_role u' = user_role u
              \<and> password u' = password u"
proof (cases "patient_entry st (selected_patient fm) \<and> name = selected_patient fm")
  case False
  then show ?thesis
    using assms add_medical_record_no_entry[of st fm] add_medical_record_other[of name fm st]
    by auto
next
  case True
  from add_medical_record_ok[of st fm] True obtain u0 mh where
    u: "users st (selected_patient fm) = Some u0"
    and r: "add_medical_record st fm =
               (Ok, st\<lparr>users := (users st)(selected_patient fm \<mapsto>
                      add_doctor (username st)
                        (u0\<lparr>medical_history :=
                             Py (add_to_folder (folder_name fm) (new_record_of (username st) fm) mh)\<rparr>))\<rparr>)"
    by blast
  have "u0 = u" using u assms True by simp
  then show ?thesis using True by (simp add: r add_doctor_fields)
qed

lemma step_keeps_fields:
  assumes "users st name = Some u"
  shows "\<exists>u'. users (step hashpw checkpw st a) name = Some u'
              \<and> patients u' = patients u \<and> user_role u' = user_role u
              \<and> password u' = password u"
proof (cases a)
  case (Signup un p c r salt)
  then show ?thesis using assms by (simp add: signup_keeps_users)
next
  case (Login un p)
  then show ?thesis using assms by (simp add: users_login)
next
  case Logout
  then show ?thesis using assms by (simp add: users_logout)
next
  case (AddRecord fm)
  then show ?thesis using assms add_keeps_fields[OF assms, of fm] by auto
next
  case (SelectFolder f)
  then show ?thesis using assms by (simp add: users_select_folder)
next
  case (AnalyzeSymptoms s)
  then show ?thesis using assms by simp
next
  case Rerun
  then show ?thesis using assms by simp
qed

lemma two_visits_run:
  "two_visits = run example_hashpw example_checkpw initial_state
     [Signup ''alice'' ''password1'' ''password1'' Patient ''$2b$'',
      Signup ''bob'' ''password2'' ''password2'' Doctor ''$2b$'',
      Login ''bob'' ''password2'', AddRecord checkup_form, AddRecord followup_form]"
  by (simp add: two_visits_def clinic_def run_def)

lemma two_visits_users:
  "users two_visits ''bob'' = Some \<lparr>password = ''$2b$password2'', user_role = Doctor,
                                   medical_history = PyNone, patients = Py [], doctors = None\<rparr>"
  "users two_visits ''alice''
     = Some \<lparr>password = ''$2b$password1'', user_role = Patient,
              medical_history = Py [(''Checkups'', [new_record_of ''bob'' checkup_form,
                                                     new_record_of ''bob'' followup_form])],
              patients = PyNone, doctors = Some [''bob'']\<rparr>"
  by (simp_all add: two_visits_def run_def clinic_users add_medical_record_def
      in_patient_list_def add_to_folder_def add_doctor_def get_doctors_def checkup_form_def
      followup_form_def)

text \<open>
  Claim C10. In every state that the actions can reach from the empty store, a doctor's
  entry has the empty \<open>patients\<close> list and \<open>None\<close> for the history, and a patient's
  entry has \<open>None\<close> for \<open>patients\<close> (the key is written by signup, with that value)
  and a folder mapping. No action writes a \<open>patients\<close> list: every step keeps the
  \<open>patients\<close> value, the role and the password of every user; adding a record changes
  the patient's history and \<open>doctors\<close> list only.
\<close>

theorem doctor_patients_stays_empty:
  "(\<forall>name u. users (run hashpw checkpw initial_state actions) name = Some u \<longrightarrow>
       (user_role u = Doctor \<longrightarrow> patients u = Py [] \<and> medical_history u = PyNone)
       \<and> (user_role u = Patient \<longrightarrow> patients u = PyNone \<and> (\<exists>mh. medical_history u = Py mh)))
   \<and> (\<forall>st a name u. users st name = Some u \<longrightarrow>
         (\<exists>u'. users (step hashpw checkpw st a) name = Some u'
               \<and> patients u' = patients u \<and> user_role u' = user_role u))
   \<and> (\<forall>st fm name u. users st name = Some u \<longrightarrow>
         (\<exists>u'. users (snd (add_medical_record st fm)) name = Some u'
               \<and> patients u' = patients u \<and> user_role u' = user_role u
               \<and> password u' = password u))"
proof -
  have a: "\<forall>name u. users (run hashpw checkpw initial_state actions) name = Some u \<longrightarrow>
       (user_role u = Doctor \<longrightarrow> patients u = Py [] \<and> medical_history u = PyNone)
       \<and> (user_role u = Patient \<longrightarrow> patients u = PyNone \<and> (\<exists>mh. medical_history u = Py mh))"
  proof (intro allI impI)
    fix name u assume "users (run hashpw checkpw initial_state actions) name = Some u"
    then have s: "user_shape u" by (rule reachable_shape)
    show "(user_role u = Doctor \<longrightarrow> patients u = Py [] \<and> medical_history u = PyNone)
       \<and> (user_role u = Patient \<longrightarrow> patients u = PyNone \<and> (\<exists>mh. medical_history u = Py mh))"
      using s by (cases "medical_history u") (auto simp: user_shape_def)
  qed
  have b: "\<forall>st a name u. users st name = Some u \<longrightarrow>
         (\<exists>u'. users (step hashpw checkpw st a) name = Some u'
               \<and> patients u' = patients u \<and> user_role u' = user_role u)"
    using step_keeps_fields by blast
  have c: "\<forall>st fm name u. users st name = Some u \<longrightarrow>
         (\<exists>u'. users (snd (add_medical_record st fm)) name = Some u'
               \<and> patients u' = patients u \<and> user_role u' = user_role u
               \<and> password u' = password u)"
    using add_keeps_fields by blast
  from a b c show ?thesis by blast
qed

theorem doctor_patients_stays_empty_witness:
  "users two_visits ''bob'' = Some \<lparr>password = ''$2b$password2'', user_role = Doctor,
                                   medical_history = PyNone, patients = Py [], doctors = None\<rparr>
   \<and> (\<exists>u. users two_visits ''bob'' = Some u \<and> user_role u = Doctor \<and> patients u = Py [])
   \<and> (\<exists>u. users two_visits ''alice'' = Some u \<and> user_role u = Patient \<and> patients u = PyNone)"
proof -
  let ?acts = "[Signup ''alice'' ''password1'' ''password1'' Patient ''$2b$'',
      Signup ''bob'' ''password2'' ''password2'' Doctor ''$2b$'',
      Login ''bob'' ''password2'', AddRecord checkup_form, AddRecord followup_form]"
  let ?bob = "\<lparr>password = ''$2b$password2'', user_role = Doctor,
               medical_history = PyNone, patients = Py [], doctors = None\<rparr>"
  let ?alice = "\<lparr>password = ''$2b$password1'', user_role = Patient,
              medical_history = Py [(''Checkups'', [new_record_of ''bob'' checkup_form,
                                                     new_record_of ''bob'' followup_form])],
              patients = PyNone, doctors = Some [''bob'']\<rparr>"
  note t = doctor_patients_stays_empty[of example_hashpw example_checkpw ?acts,
      THEN conjunct1, folded two_visits_run]
  have b: "users two_visits ''bob'' = Some ?bob" by (rule two_visits_users(1))
  have al: "users two_visits ''alice'' = Some ?alice" by (rule two_visits_users(2))
  have rb: "user_role ?bob = Doctor" by simp
  have ra: "user_role ?alice = Patient" by simp
  have pb: "patients ?bob = Py []"
    using t[rule_format, OF b, THEN conjunct1, rule_format, OF rb] by blast
  have pa: "patients ?alice = PyNone"
    using t[rule_format, OF al, THEN conjunct2, rule_format, OF ra] by blast
  from b rb pb al ra pa show ?thesis by blast
qed

text \<open>
  bob adds two records to alice: his \<open>patients\<close> list is still empty. And no reachable
  state has a \<open>patients\<close> list with a duplicate, which the claim calls possible.
\<close>

theorem doctor_patients_counterexample:
  "users two_visits ''bob'' = Some \<lparr>password = ''$2b$password2'', user_role = Doctor,
                                   medical_history = PyNone, patients = Py [], doctors = None\<rparr>
   \<and> \<not> (\<exists>hashpw checkpw actions name u l.
           users (run hashpw checkpw initial_state actions) name = Some u
           \<and> patients u = Py l \<and> \<not> distinct l)"
proof -
  have "distinct l"
    if "users (run hashpw checkpw initial_state actions) name = Some u" "patients u = Py l"
    for hashpw checkpw actions name u and l :: "string list"
  proof -
    have "user_shape u" using that(1) by (rule reachable_shape)
    then have "l = []" using that(2) by (auto simp: user_shape_def split: role_name.splits)
    then show ?thesis by simp
  qed
  then show ?thesis using two_visits_users(1) by blast
qed

text \<open>
  Claim C6, for what the code does. When a doctor adds a record to a patient, the doctor's
  username is afterwards in the patient's \<open>doctors\<close> list, appended at the end unless it
  was there, and that list has no duplicates in any reachable state. In the other
  direction nothing is written: adding a record leaves the \<open>patients\<close> value of every
  user as it was, and in every reachable state a \<open>patients\<close> list is empty, so it holds
  no patient and no duplicate.
\<close>

theorem doctors_list_guarded:
  "(\<forall>u. fst (add_medical_record st fm) = Ok \<and> users st (selected_patient fm) = Some u \<longrightarrow>
       (\<exists>u'. users (snd (add_medical_record st fm)) (selected_patient fm) = Some u'
             \<and> username st \<in> set (get_doctors u')
             \<and> get_doctors u' = (if username st \<in> set (get_doctors u) then get_doctors u
                                  else get_doctors u @ [username st])
             \<and> (distinct (get_doctors u) \<longrightarrow> distinct (get_doctors u'))))
   \<and> (\<forall>name u. users (run hashpw checkpw initial_state actions) name = Some u \<longrightarrow>
         distinct (get_doctors u) \<and> (\<forall>l. patients u = Py l \<longrightarrow> l = []))
   \<and> (\<forall>name u. users st name = Some u \<longrightarrow>
         (\<exists>u'. users (snd (add_medical_record st fm)) name = Some u'
               \<and> patients u' = patients u))"
proof -
  have a: "\<forall>u. fst (add_medical_record st fm) = Ok \<and> users st (selected_patient fm) = Some u \<longrightarrow>
       (\<exists>u'. users (snd (add_medical_record st fm)) (selected_patient fm) = Some u'
             \<and> username st \<in> set (get_doctors u')
             \<and> get_doctors u' = (if username st \<in> set (get_doctors u) then get_doctors u
                                  else get_doctors u @ [username st])
             \<and> (distinct (get_doctors u) \<longrightarrow> distinct (get_doctors u')))"
  proof (intro allI impI)
    fix u assume h: "fst (add_medical_record st fm) = Ok \<and> users st (selected_patient fm) = Some u"
    then obtain mh where mh: "medical_history u = Py mh"
      by (cases "medical_history u")
         (auto simp: add_medical_record_def split: if_splits)
    let ?u1 = "u\<lparr>medical_history :=
                  Py (add_to_folder (folder_name fm) (new_record_of (username st) fm) mh)\<rparr>"
    have r: "snd (add_medical_record st fm)
               = st\<lparr>users := (users st)(selected_patient fm \<mapsto> add_doctor (username st) ?u1)\<rparr>"
      using h mh by (auto simp: add_medical_record_def split: if_splits)
    have g: "get_doctors ?u1 = get_doctors u" by (simp add: get_doctors_def)
    have d: "get_doctors (add_doctor (username st) ?u1)
               = (if username st \<in> set (get_doctors u) then get_doctors u
                  else get_doctors u @ [username st])"
      by (simp add: add_doctor_def get_doctors_def)
    show "\<exists>u'. users (snd (add_medical_record st fm)) (selected_patient fm) = Some u'
             \<and> username st \<in> set (get_doctors u')
             \<and> get_doctors u' = (if username st \<in> set (get_doctors u) then get_doctors u
                                  else get_doctors u @ [username st])
             \<and> (distinct (get_doctors u) \<longrightarrow> distinct (get_doctors u'))"
      by (rule exI[of _ "add_doctor (username st) ?u1"]) (simp add: r d)
  qed
  have b: "\<forall>name u. users (run hashpw checkpw initial_state actions) name = Some u \<longrightarrow>
         distinct (get_doctors u) \<and> (\<forall>l. patients u = Py l \<longrightarrow> l = [])"
  proof (intro allI impI)
    fix name u assume "users (run hashpw checkpw initial_state actions) name = Some u"
    then have "user_shape u" by (rule reachable_shape)
    then show "distinct (get_doctors u) \<and> (\<forall>l. patients u = Py l \<longrightarrow> l = [])"
      by (auto simp: user_shape_def split: role_name.splits)
  qed
  have c: "\<forall>name u. users st name = Some u \<longrightarrow>
         (\<exists>u'. users (snd (add_medical_record st fm)) name = Some u'
               \<and> patients u' = patients u)"
    using add_keeps_fields[of st _ _ fm] by blast
  from a b c show ?thesis by blast
qed

theorem doctors_list_guarded_witness:
  "(\<exists>u'. users (snd (add_medical_record clinic checkup_form)) ''alice'' = Some u'
          \<and> ''bob'' \<in> set (get_doctors u') \<and> get_doctors u' = [''bob''])
   \<and> distinct [''bob'']
   \<and> (\<exists>u'. users (snd (add_medical_record clinic checkup_form)) ''bob'' = Some u'
          \<and> patients u' = Py [])"
proof -
  let ?acts = "[Signup ''alice'' ''password1'' ''password1'' Patient ''$2b$'',
      Signup ''bob'' ''password2'' ''password2'' Doctor ''$2b$'',
      Login ''bob'' ''password2'', AddRecord checkup_form, AddRecord followup_form]"
  let ?before = "\<lparr>password = ''$2b$password1'', user_role = Patient,
                  medical_history = Py [], patients = PyNone, doctors = None\<rparr>"
  let ?bob = "\<lparr>password = ''$2b$password2'', user_role = Doctor,
               medical_history = PyNone, patients = Py [], doctors = None\<rparr>"
  let ?alice = "\<lparr>password = ''$2b$password1'', user_role = Patient,
              medical_history = Py [(''Checkups'', [new_record_of ''bob'' checkup_form,
                                                     new_record_of ''bob'' followup_form])],
              patients = PyNone, doctors = Some [''bob'']\<rparr>"
  note t = doctors_list_guarded[of clinic checkup_form example_hashpw example_checkpw ?acts]
  have sp: "selected_patient checkup_form = ''alice''" by (simp add: checkup_form_def)
  have h: "fst (add_medical_record clinic checkup_form) = Ok
           \<and> users clinic (selected_patient checkup_form) = Some ?before"
    by (simp add: sp clinic_users add_medical_record_def in_patient_list_def)
  have gb: "get_doctors ?before = []" by (simp add: get_doctors_def)
  note a0 = t[THEN conjunct1, rule_format, OF h, unfolded sp clinic_users(5) gb]
  have a: "\<exists>u'. users (snd (add_medical_record clinic checkup_form)) ''alice'' = Some u'
          \<and> ''bob'' \<in> set (get_doctors u') \<and> get_doctors u' = [''bob'']"
    using a0 by auto
  have al: "users two_visits ''alice'' = Some ?alice" by (rule two_visits_users(2))
  have "distinct (get_doctors ?alice)"
    using t[THEN conjunct2, THEN conjunct1, folded two_visits_run, rule_format, OF al] by blast
  then have b: "distinct [''bob'']" by (simp add: get_doctors_def)
  have bb: "users clinic ''bob'' = Some ?bob" by (rule clinic_users(2))
  from t[THEN conjunct2, THEN conjunct2, rule_format, OF bb]
  have c: "\<exists>u'. users (snd (add_medical_record clinic checkup_form)) ''bob'' = Some u'
          \<and> patients u' = Py []"
    by simp
  from a b c show ?thesis by blast
qed

section \<open>Records and folders are only added\<close>

lemma folder_records_users:
  "users st' p = users st p \<Longrightarrow> folder_records st' p f = folder_records st p f"
  by (simp add: folder_records_def folders_of_def)

lemma list_folders_users:
  "users st' p = users st p \<Longrightarrow> list_folders st' p = list_folders st p"
  by (simp add: list_folders_def folders_of_def)

lemma signup_users_cases:
  "users (snd (signup hashpw st uname pw confirm r salt)) p = users st p
   \<or> (users st p = None \<and> p = uname)"
  by (auto simp: signup_def split: option.splits)

lemma absent_user_no_folders:
  "users st p = None \<Longrightarrow> folder_records st p f = [] \<and> list_folders st p = []"
  by (simp add: folder_records_def list_folders_def folders_of_def)

lemma step_appends:
  "prefix (folder_records st p f) (folder_records (step hashpw checkpw st a) p f)
   \<and> prefix (list_folders st p) (list_folders (step hashpw checkpw st a) p)
   \<and> dom (users st) \<subseteq> dom (users (step hashpw checkpw st a))"
proof (cases a)
  case (Signup un pw c r salt)
  have d: "dom (users st) \<subseteq> dom (users (snd (signup hashpw st un pw c r salt)))"
  proof
    fix x assume "x \<in> dom (users st)"
    then obtain u where "users st x = Some u" by auto
    then have "users (snd (signup hashpw st un pw c r salt)) x = Some u"
      by (rule signup_keeps_users)
    then show "x \<in> dom (users (snd (signup hashpw st un pw c r salt)))" by auto
  qed
  from signup_users_cases[of hashpw st un pw c r salt p]
  have "prefix (folder_records st p f) (folder_records (snd (signup hashpw st un pw c r salt)) p f)
        \<and> prefix (list_folders st p) (list_folders (snd (signup hashpw st un pw c r salt)) p)"
  proof
    assume e: "users (snd (signup hashpw st un pw c r salt)) p = users st p"
    show ?thesis
      by (simp only: folder_records_users[OF e] list_folders_users[OF e] prefix_order.refl)
  next
    assume h: "users st p = None \<and> p = un"
    note e = absent_user_no_folders[OF conjunct1[OF h], of f]
    show ?thesis by (simp only: e Nil_prefix)
  qed
  then show ?thesis using Signup d by simp
next
  case (Login un pw)
  then show ?thesis
    by (simp add: folder_records_users[OF fun_cong[OF users_login]]
        list_folders_users[OF fun_cong[OF users_login]] users_login)
next
  case Logout
  then show ?thesis
    by (simp add: folder_records_users[OF fun_cong[OF users_logout]]
        list_folders_users[OF fun_cong[OF users_logout]] users_logout)
next
  case (AddRecord fm)
  have "prefix (folder_records st p f) (folder_records (snd (add_medical_record st fm)) p f)
        \<and> prefix (list_folders st p) (list_folders (snd (add_medical_record st fm)) p)"
  proof (cases "patient_entry st (selected_patient fm)")
    case True
    then show ?thesis by (simp add: folder_records_add list_folders_add)
  next
    case False
    then show ?thesis by (simp add: add_medical_record_no_entry)
  qed
  moreover have "dom (users st) \<subseteq> dom (users (snd (add_medical_record st fm)))"
  proof
    fix x assume "x \<in> dom (users st)"
    then obtain u where "users st x = Some u" by auto
    from add_keeps_fields[OF this, of fm]
    show "x \<in> dom (users (snd (add_medical_record st fm)))" by auto
  qed
  ultimately show ?thesis using AddRecord by simp
next
  case (SelectFolder g)
  then show ?thesis
    by (simp add: folder_records_users[OF fun_cong[OF users_select_folder]]
        list_folders_users[OF fun_cong[OF users_select_folder]] users_select_folder)
next
  case (AnalyzeSymptoms s)
  then show ?thesis by simp
next
  case Rerun
  then show ?thesis by simp
qed

lemma run_appends:
  "(\<forall>p f. prefix (folder_records st p f) (folder_records (run hashpw checkpw st actions) p f))
   \<and> (\<forall>p. prefix (list_folders st p) (list_folders (run hashpw checkpw st actions) p))
   \<and> dom (users st) \<subseteq> dom (users (run hashpw checkpw st actions))"
proof (induction actions arbitrary: st)
  case Nil
  show ?case by (simp add: run_Nil)
next
  case (Cons a actions)
  let ?st1 = "step hashpw checkpw st a"
  note s = step_appends[of st _ _ hashpw checkpw a]
  note ih = Cons.IH[of ?st1]
  have a1: "\<forall>p f. prefix (folder_records st p f)
                     (folder_records (run hashpw checkpw ?st1 actions) p f)"
    using s ih by (blast intro: prefix_order.trans)
  have a2: "\<forall>p. prefix (list_folders st p) (list_folders (run hashpw checkpw ?st1 actions) p)"
    using s ih by (blast intro: prefix_order.trans)
  have a3: "dom (users st) \<subseteq> dom (users (run hashpw checkpw ?st1 actions))"
    using s ih by (blast intro: subset_trans)
  from a1 a2 a3 show ?case by (simp only: run_Cons) blast
qed

text \<open>
  Claim C7. Whatever actions follow (signup, login, logout, adding a record, selecting a
  folder, the analysis, a rerun that only reads), from any state: the records a folder
  holds stay where they are, unchanged, at the front of the folder's list, so a later
  list only has records appended; the folder names of a patient stay, in their order,
  with new names appended; and no user is removed. A folder comes into being when a doctor
  adds a record under its name: after that step the name is among the patient's folders.
\<close>

theorem records_only_appended:
  "(\<forall>p f. prefix (folder_records st p f) (folder_records (run hashpw checkpw st actions) p f))
   \<and> (\<forall>p. prefix (list_folders st p) (list_folders (run hashpw checkpw st actions) p))
   \<and> dom (users st) \<subseteq> dom (users (run hashpw checkpw st actions))
   \<and> (\<forall>fm u mh. logged_in st \<and> role st \<noteq> Some Patient
          \<and> users st (selected_patient fm) = Some u \<and> user_role u = Patient
          \<and> medical_history u = Py mh
        \<longrightarrow> folder_name fm
              \<in> set (list_folders (step hashpw checkpw st (AddRecord fm)) (selected_patient fm)))"
proof -
  have c: "\<forall>fm u mh. logged_in st \<and> role st \<noteq> Some Patient
          \<and> users st (selected_patient fm) = Some u \<and> user_role u = Patient
          \<and> medical_history u = Py mh
        \<longrightarrow> folder_name fm
              \<in> set (list_folders (step hashpw checkpw st (AddRecord fm)) (selected_patient fm))"
  proof (intro allI impI)
    fix fm :: record_form and u mh
    assume h: "logged_in st \<and> role st \<noteq> Some Patient
          \<and> users st (selected_patient fm) = Some u \<and> user_role u = Patient
          \<and> medical_history u = Py mh"
    then have pe: "patient_entry st (selected_patient fm)"
      by (auto simp: patient_entry_def)
    have s: "step hashpw checkpw st (AddRecord fm) = snd (add_medical_record st fm)"
      using h by simp
    show "folder_name fm
            \<in> set (list_folders (step hashpw checkpw st (AddRecord fm)) (selected_patient fm))"
      unfolding s by (simp add: list_folders_add[OF pe])
  qed
  from run_appends[of st hashpw checkpw actions] c show ?thesis by blast
qed

theorem records_only_appended_witness:
  "prefix [new_record_of ''bob'' checkup_form]
     (folder_records
        (run example_hashpw example_checkpw
           (step example_hashpw example_checkpw clinic (AddRecord checkup_form))
           [AddRecord xray_form, AddRecord followup_form, Logout,
            Login ''alice'' ''password1'', SelectFolder ''Imaging''])
        ''alice'' ''Checkups'')
   \<and> prefix [''Checkups'']
     (list_folders
        (run example_hashpw example_checkpw
           (step example_hashpw example_checkpw clinic (AddRecord checkup_form))
           [AddRecord xray_form, AddRecord followup_form, Logout,
            Login ''alice'' ''password1'', SelectFolder ''Imaging''])
        ''alice'')"
proof -
  let ?st1 = "step example_hashpw example_checkpw clinic (AddRecord checkup_form)"
  let ?acts = "[AddRecord xray_form, AddRecord followup_form, Logout,
            Login ''alice'' ''password1'', SelectFolder ''Imaging'']"
  note t = records_only_appended[of ?st1 example_hashpw example_checkpw ?acts]
  have s1: "?st1 = snd (add_medical_record clinic checkup_form)"
    by (simp add: clinic_users)
  have u: "users (snd (add_medical_record clinic checkup_form)) ''alice''
             = Some \<lparr>password = ''$2b$password1'', user_role = Patient,
                      medical_history = Py [(''Checkups'', [new_record_of ''bob'' checkup_form])],
                      patients = PyNone, doctors = Some [''bob'']\<rparr>"
    by (simp add: clinic_users add_medical_record_def in_patient_list_def add_to_folder_def
        add_doctor_def get_doctors_def checkup_form_def)
  have f: "folder_records ?st1 ''alice'' ''Checkups'' = [new_record_of ''bob'' checkup_form]"
    unfolding s1 by (simp add: folder_records_def folders_of_def u)
  have l: "list_folders ?st1 ''alice'' = [''Checkups'']"
    unfolding s1 by (simp add: list_folders_def folders_of_def u)
  have a: "prefix [new_record_of ''bob'' checkup_form]
             (folder_records (run example_hashpw example_checkpw ?st1 ?acts) ''alice'' ''Checkups'')"
    using t[THEN conjunct1, rule_format, of "''alice''" "''Checkups''"] by (simp only: f)
  have b: "prefix [''Checkups'']
             (list_folders (run example_hashpw example_checkpw ?st1 ?acts) ''alice'')"
    using t[THEN conjunct2, THEN conjunct1, rule_format, of "''alice''"] by (simp only: l)
  from a b show ?thesis by (rule conjI)
qed

end
